theory Spec2Isabelle
  imports Main
begin

section \<open>Python values\<close>

text \<open>
  The ETL job of \<^verbatim>\<open>b.extract.py\<close> works on whatever \<^verbatim>\<open>response.json()\<close> returns, so the
  model starts from the values a JSON document decodes to.  A float is identified by its
  Python \<^verbatim>\<open>repr\<close> (the shortest decimal string that reads back to the same double, such as
  \<^verbatim>\<open>10.1\<close>); the program never computes with floats, it only tests them for truth,
  prints them and hands them to SQLite.  A string is a list of characters, each a code
  point below 256.  A JSON object is the list of its members in document order, with
  distinct keys.
\<close>

datatype pyval =
    PNone
  | PBool bool
  | PInt int
  | PFloat string
  | PStr string
  | PList "pyval list"
  | PDict "(string \<times> pyval) list"

text \<open>The exceptions the cycle can meet; \<open>str_exn\<close> is Python's \<^verbatim>\<open>str(e)\<close>.\<close>

datatype exn =
    RequestException string
  | HTTPError string
  | JSONDecodeError string
  | AttributeError string string
  | NotIterable string
  | NoLen string
  | NotSubscriptable string
  | IndexError string
  | KeyError nat
  | OverflowError
  | BindingCount nat
  | BindingType nat string
  | OperationalError string

fun type_name :: "pyval \<Rightarrow> string" where
  "type_name PNone = ''NoneType''"
| "type_name (PBool b) = ''bool''"
| "type_name (PInt n) = ''int''"
| "type_name (PFloat r) = ''float''"
| "type_name (PStr s) = ''str''"
| "type_name (PList xs) = ''list''"
| "type_name (PDict kvs) = ''dict''"

text \<open>Truth value testing, as \<^verbatim>\<open>if x\<close> and \<^verbatim>\<open>not x\<close> do it.\<close>

fun truthy :: "pyval \<Rightarrow> bool" where
  "truthy PNone = False"
| "truthy (PBool b) = b"
| "truthy (PInt n) = (n \<noteq> 0)"
| "truthy (PFloat r) = (r \<noteq> ''0.0'' \<and> r \<noteq> ''-0.0'')"
| "truthy (PStr s) = (s \<noteq> [])"
| "truthy (PList xs) = (xs \<noteq> [])"
| "truthy (PDict kvs) = (kvs \<noteq> [])"

text \<open>\<^verbatim>\<open>len(x)\<close>, \<^verbatim>\<open>x[i]\<close> for a literal index \<open>i\<close>, and iteration (\<^verbatim>\<open>for y in x\<close>,
  \<^verbatim>\<open>map(f, x)\<close>).  A JSON object has string keys only, so subscripting one with an integer
  raises \<^verbatim>\<open>KeyError\<close>; iterating one yields its keys.\<close>

fun py_len :: "pyval \<Rightarrow> exn + nat" where
  "py_len (PStr s) = Inr (length s)"
| "py_len (PList xs) = Inr (length xs)"
| "py_len (PDict kvs) = Inr (length kvs)"
| "py_len v = Inl (NoLen (type_name v))"

fun py_getitem :: "pyval \<Rightarrow> nat \<Rightarrow> exn + pyval" where
  "py_getitem (PList xs) i = (if i < length xs then Inr (xs ! i) else Inl (IndexError ''list''))"
| "py_getitem (PStr s) i = (if i < length s then Inr (PStr [s ! i]) else Inl (IndexError ''string''))"
| "py_getitem (PDict kvs) i = Inl (KeyError i)"
| "py_getitem v i = Inl (NotSubscriptable (type_name v))"

fun py_iter :: "pyval \<Rightarrow> exn + pyval list" where
  "py_iter (PList xs) = Inr xs"
| "py_iter (PStr s) = Inr (map (\<lambda>c. PStr [c]) s)"
| "py_iter (PDict kvs) = Inr (map (\<lambda>kv. PStr (fst kv)) kvs)"
| "py_iter v = Inl (NotIterable (type_name v))"

text \<open>\<^verbatim>\<open>data.get("states", [])\<close>: only a dict has \<^verbatim>\<open>get\<close>.\<close>

fun py_get :: "pyval \<Rightarrow> string \<Rightarrow> pyval \<Rightarrow> exn + pyval" where
  "py_get (PDict kvs) k dflt = Inr (case map_of kvs k of None \<Rightarrow> dflt | Some v \<Rightarrow> v)"
| "py_get v k dflt = Inl (AttributeError (type_name v) ''get'')"

subsection \<open>Strings: \<^verbatim>\<open>strip\<close>, \<^verbatim>\<open>str\<close> and \<^verbatim>\<open>join\<close>\<close>

text \<open>\<^verbatim>\<open>str.strip()\<close> removes leading and trailing whitespace: the code points for which
  \<^verbatim>\<open>str.isspace\<close> holds, which below 256 are 9 to 13, 28 to 32, 133 and 160.\<close>

definition is_space :: "char \<Rightarrow> bool" where
  "is_space c =
     (let n = (of_char c :: nat)
      in (9 \<le> n \<and> n \<le> 13) \<or> (28 \<le> n \<and> n \<le> 32) \<or> n = 133 \<or> n = 160)"

definition strip :: "string \<Rightarrow> string" where
  "strip s = rev (dropWhile is_space (rev (dropWhile is_space s)))"

fun py_strip :: "pyval \<Rightarrow> exn + pyval" where
  "py_strip (PStr s) = Inr (PStr (strip s))"
| "py_strip v = Inl (AttributeError (type_name v) ''strip'')"

definition digit_char :: "nat \<Rightarrow> char" where
  "digit_char d = char_of (48 + d)"

fun string_of_nat :: "nat \<Rightarrow> string" where
  "string_of_nat n =
     (if n < 10 then [digit_char n] else string_of_nat (n div 10) @ [digit_char (n mod 10)])"

declare string_of_nat.simps [simp del]

definition string_of_int :: "int \<Rightarrow> string" where
  "string_of_int i = (if i < 0 then CHR ''-'' # string_of_nat (nat (- i)) else string_of_nat (nat i))"

text \<open>\<^verbatim>\<open>repr\<close> of a string: single quotes unless the string has a single quote and no
  double quote; the quote and the backslash are escaped, tab, newline and carriage return
  are written symbolically, and the code points that are not printable (below 32, 127 to
  160, 173) as \<^verbatim>\<open>\xNN\<close>.\<close>

definition hex_char :: "nat \<Rightarrow> char" where
  "hex_char d = (if d < 10 then char_of (48 + d) else char_of (87 + d))"

definition repr_char :: "char \<Rightarrow> char \<Rightarrow> string" where
  "repr_char q c =
     (let n = (of_char c :: nat) in
      if c = q \<or> c = CHR 0x5C then [CHR 0x5C, c]
      else if n = 9 then [CHR 0x5C, CHR ''t'']
      else if n = 10 then [CHR 0x5C, CHR ''n'']
      else if n = 13 then [CHR 0x5C, CHR ''r'']
      else if n < 32 \<or> (127 \<le> n \<and> n \<le> 160) \<or> n = 173
        then [CHR 0x5C, CHR ''x'', hex_char (n div 16), hex_char (n mod 16)]
      else [c])"

definition repr_str :: "string \<Rightarrow> string" where
  "repr_str s =
     (let q = (if CHR 0x27 \<in> set s \<and> CHR 0x22 \<notin> set s then CHR 0x22 else CHR 0x27)
      in q # concat (map (repr_char q) s) @ [q])"

fun join :: "string \<Rightarrow> string list \<Rightarrow> string" where
  "join sep [] = []"
| "join sep [x] = x"
| "join sep (x # y # ys) = x @ sep @ join sep (y # ys)"

fun py_repr :: "pyval \<Rightarrow> string" where
  "py_repr PNone = ''None''"
| "py_repr (PBool b) = (if b then ''True'' else ''False'')"
| "py_repr (PInt n) = string_of_int n"
| "py_repr (PFloat r) = r"
| "py_repr (PStr s) = repr_str s"
| "py_repr (PList xs) = ''['' @ join '', '' (map py_repr xs) @ '']''"
| "py_repr (PDict kvs) =
     ''{'' @ join '', '' (map (\<lambda>kv. repr_str (fst kv) @ '': '' @ py_repr (snd kv)) kvs) @ ''}''"

fun py_str :: "pyval \<Rightarrow> string" where
  "py_str (PStr s) = s"
| "py_str v = py_repr v"

fun str_exn :: "exn \<Rightarrow> string" where
  "str_exn (RequestException m) = m"
| "str_exn (HTTPError m) = m"
| "str_exn (JSONDecodeError m) = m"
| "str_exn (AttributeError t a) =
     [CHR 0x27] @ t @ [CHR 0x27] @ '' object has no attribute '' @ [CHR 0x27] @ a @ [CHR 0x27]"
| "str_exn (NotIterable t) = [CHR 0x27] @ t @ [CHR 0x27] @ '' object is not iterable''"
| "str_exn (NoLen t) = ''object of type '' @ [CHR 0x27] @ t @ [CHR 0x27] @ '' has no len()''"
| "str_exn (NotSubscriptable t) = [CHR 0x27] @ t @ [CHR 0x27] @ '' object is not subscriptable''"
| "str_exn (IndexError t) = t @ '' index out of range''"
| "str_exn (KeyError k) = string_of_nat k"
| "str_exn OverflowError = ''Python int too large to convert to SQLite INTEGER''"
| "str_exn (BindingCount n) =
     ''Incorrect number of bindings supplied. The current statement uses 18, and there are ''
       @ string_of_nat n @ '' supplied.''"
| "str_exn (BindingType i t) =
     ''Error binding parameter '' @ string_of_nat i @ '': type '' @ [CHR 0x27] @ t @ [CHR 0x27]
       @ '' is not supported''"
| "str_exn (OperationalError m) = m"

section \<open>Record preparation (lines 58 to 70 of \<^verbatim>\<open>b.extract.py\<close>)\<close>

text \<open>The elements of a tuple display are evaluated from left to right, and the first
  exception ends the evaluation.\<close>

fun sequence_exn :: "(exn + 'a) list \<Rightarrow> exn + 'a list" where
  "sequence_exn [] = Inr []"
| "sequence_exn (Inl e # rs) = Inl e"
| "sequence_exn (Inr x # rs) =
     (case sequence_exn rs of Inl e \<Rightarrow> Inl e | Inr xs \<Rightarrow> Inr (x # xs))"

text \<open>\<^verbatim>\<open>state[1].strip() if state[1] else None\<close>\<close>

definition callsign_of :: "pyval \<Rightarrow> exn + pyval" where
  "callsign_of state =
     (case py_getitem state 1 of
        Inl e \<Rightarrow> Inl e
      | Inr v \<Rightarrow> if truthy v then py_strip v else Inr PNone)"

text \<open>\<^verbatim>\<open>",".join(map(str, state[12])) if state[12] else None\<close>\<close>

definition sensors_of :: "pyval \<Rightarrow> exn + pyval" where
  "sensors_of state =
     (case py_getitem state 12 of
        Inl e \<Rightarrow> Inl e
      | Inr v \<Rightarrow>
          if truthy v
          then (case py_iter v of
                  Inl e \<Rightarrow> Inl e
                | Inr xs \<Rightarrow> Inr (PStr (join '','' (map py_str xs))))
          else Inr PNone)"

text \<open>The 18-tuple built for one state vector; \<open>fetch_time\<close> is its last component.\<close>

definition record_of :: "string \<Rightarrow> pyval \<Rightarrow> exn + pyval list" where
  "record_of fetch_time state =
     sequence_exn
       [py_getitem state 0, callsign_of state, py_getitem state 2, py_getitem state 3,
        py_getitem state 4, py_getitem state 5, py_getitem state 6, py_getitem state 7,
        py_getitem state 8, py_getitem state 9, py_getitem state 10, py_getitem state 11,
        sensors_of state, py_getitem state 13, py_getitem state 14, py_getitem state 15,
        py_getitem state 16, Inr (PStr fetch_time)]"

text \<open>The loop \<^verbatim>\<open>for state in (states or [])\<close>: a state of length 17 or more contributes
  its record, a shorter one contributes nothing, and an exception leaves the loop.\<close>

fun records_to_insert :: "string \<Rightarrow> pyval list \<Rightarrow> exn + pyval list list" where
  "records_to_insert fetch_time [] = Inr []"
| "records_to_insert fetch_time (state # states) =
     (case py_len state of
        Inl e \<Rightarrow> Inl e
      | Inr n \<Rightarrow>
          if n \<ge> 17
          then (case record_of fetch_time state of
                  Inl e \<Rightarrow> Inl e
                | Inr record \<Rightarrow>
                    (case records_to_insert fetch_time states of
                       Inl e \<Rightarrow> Inl e
                     | Inr records \<Rightarrow> Inr (record # records)))
          else records_to_insert fetch_time states)"

section \<open>Floating point and decimal text\<close>

text \<open>
  SQLite converts between integers, floating point numbers and text when a bound value
  does not have the type of its column, and Python prints the floats it reads back.  The
  conversions are defined here on exact fractions: a non-negative fraction is a pair of a
  numerator and a positive denominator, a double is the fraction it denotes, and a decimal
  \<open>m\<close> times \<open>10 ^ e\<close> is read to the nearest double (ties to even) and printed with the
  digits exact arithmetic gives.
\<close>

type_synonym frac = "int \<times> int"

definition frac_le :: "frac \<Rightarrow> frac \<Rightarrow> bool" where
  "frac_le p q = (fst p * snd q \<le> fst q * snd p)"

definition frac_eq :: "frac \<Rightarrow> frac \<Rightarrow> bool" where
  "frac_eq p q = (fst p * snd q = fst q * snd p)"

text \<open>\<open>q\<close> times \<open>b ^ k\<close> for an integer \<open>k\<close>.\<close>

definition scale :: "int \<Rightarrow> frac \<Rightarrow> int \<Rightarrow> frac" where
  "scale b q k = (if k \<ge> 0 then (fst q * b ^ nat k, snd q) else (fst q, snd q * b ^ nat (- k)))"

text \<open>The number of digits of \<open>n\<close> in base \<open>b\<close> (0 for 0).\<close>

function digits_len :: "int \<Rightarrow> int \<Rightarrow> int" where
  "digits_len b n = (if n \<le> 0 \<or> b < 2 then 0 else 1 + digits_len b (n div b))"
  by pat_completeness auto
termination
proof (relation "measure (\<lambda>bn. nat (snd bn))")
  show "wf (measure (\<lambda>bn. nat (snd bn)))" by simp
next
  fix b n :: int
  assume "\<not> (n \<le> 0 \<or> b < 2)"
  then have "0 < n" "1 < b" by simp_all
  then have "n div b < n" by (rule int_div_less_self)
  with \<open>0 < n\<close> show "((b, n div b), (b, n)) \<in> measure (\<lambda>bn. nat (snd bn))" by simp
qed

declare digits_len.simps [simp del]

text \<open>For \<open>q > 0\<close>, the integer \<open>e\<close> with \<open>b ^ e \<le> q < b ^ (e + 1)\<close>.\<close>

definition floor_log :: "int \<Rightarrow> frac \<Rightarrow> int" where
  "floor_log b q =
     (let e = digits_len b (fst q) - digits_len b (snd q)
      in if frac_le (scale b (1, 1) e) q then e else e - 1)"

definition round_half_even :: "frac \<Rightarrow> int" where
  "round_half_even q =
     (let n = fst q div snd q; r = fst q mod snd q
      in if 2 * r > snd q \<or> (2 * r = snd q \<and> odd n) then n + 1 else n)"

text \<open>The double nearest to \<open>q\<close>: 53 bits from the leading one, or a multiple of
  \<open>2 ^ - 1074\<close> for a subnormal; \<open>None\<close> when the result is beyond the largest double, which
  is below \<open>2 ^ 1024\<close>.\<close>

definition nearest_double :: "frac \<Rightarrow> frac option" where
  "nearest_double q =
     (if fst q = 0 then Some (0, 1)
      else let e = floor_log 2 q;
               k = max e (- 1022) - 52;
               v = scale 2 (round_half_even (scale 2 q (- k)), 1) k
           in if e < 1023 then Some v
              else if frac_le (2 ^ 1024, 1) v then None else Some v)"

text \<open>A decimal text as SQLite's \<^verbatim>\<open>sqlite3AtoF\<close> reads it, which is also how a Python
  \<^verbatim>\<open>repr\<close> of a finite float reads: blanks, a sign, digits, a point and digits, an exponent,
  blanks.  The result is the sign, the digits as a number, the power of ten, and whether
  the text is an integer literal; \<open>None\<close> when the text is not a number.\<close>

definition is_digit :: "char \<Rightarrow> bool" where
  "is_digit c = (let n = (of_char c :: nat) in 48 \<le> n \<and> n \<le> 57)"

definition sql_space :: "char \<Rightarrow> bool" where
  "sql_space c = (let n = (of_char c :: nat) in n = 32 \<or> (9 \<le> n \<and> n \<le> 13))"

definition digit_value :: "char \<Rightarrow> int" where
  "digit_value c = of_char c - 48"

definition number_of :: "string \<Rightarrow> int" where
  "number_of ds = foldl (\<lambda>n c. 10 * n + digit_value c) 0 ds"

definition parse_decimal :: "string \<Rightarrow> (bool \<times> int \<times> int \<times> bool) option" where
  "parse_decimal t =
     (let s1 = dropWhile sql_space t;
          neg = (s1 \<noteq> [] \<and> hd s1 = CHR ''-'');
          s2 = (if s1 \<noteq> [] \<and> (hd s1 = CHR ''-'' \<or> hd s1 = CHR ''+'') then tl s1 else s1);
          ds1 = takeWhile is_digit s2;
          s3 = dropWhile is_digit s2;
          dot = (s3 \<noteq> [] \<and> hd s3 = CHR ''.'');
          ds2 = (if dot then takeWhile is_digit (tl s3) else []);
          s4 = (if dot then dropWhile is_digit (tl s3) else s3);
          ex = (s4 \<noteq> [] \<and> (hd s4 = CHR ''e'' \<or> hd s4 = CHR ''E''));
          s5 = (if ex then tl s4 else s4);
          eneg = (ex \<and> s5 \<noteq> [] \<and> hd s5 = CHR ''-'');
          s6 = (if ex \<and> s5 \<noteq> [] \<and> (hd s5 = CHR ''-'' \<or> hd s5 = CHR ''+'') then tl s5 else s5);
          eds = (if ex then takeWhile is_digit s6 else []);
          s7 = (if ex then dropWhile is_digit s6 else s6);
          s8 = dropWhile sql_space s7;
          e = (if eneg then - number_of eds else number_of eds)
      in if s1 \<noteq> [] \<and> s8 = [] \<and> ds1 @ ds2 \<noteq> [] \<and> (if ex then eds \<noteq> [] else True)
         then Some (neg, number_of (ds1 @ ds2), e - int (length ds2), \<not> dot \<and> \<not> ex)
         else None)"

text \<open>The double the decimal \<open>m\<close> times \<open>10 ^ e\<close> is read as; \<open>None\<close> is infinity.  A decimal
  of more than 310 digits before the point is beyond every double, and one that starts more
  than 330 places after it is read as zero.\<close>

definition decimal_double :: "int \<Rightarrow> int \<Rightarrow> frac option" where
  "decimal_double m e =
     (if m = 0 then Some (0, 1)
      else if digits_len 10 m + e > 310 then None
      else if digits_len 10 m + e < - 330 then Some (0, 1)
      else nearest_double (scale 10 (m, 1) e))"

definition round_trips :: "frac \<Rightarrow> int \<Rightarrow> int \<Rightarrow> bool" where
  "round_trips v m x = (case decimal_double m x of None \<Rightarrow> False | Some u \<Rightarrow> frac_eq u v)"

text \<open>The shortest decimal that reads back as the double \<open>v > 0\<close>, the nearest to \<open>v\<close> among
  those of its length: \<open>p\<close> digits are tried, then one more, up to 17.\<close>

fun shortest_digits :: "frac \<Rightarrow> int \<Rightarrow> nat \<Rightarrow> int \<times> int" where
  "shortest_digits v p 0 =
     (let x = floor_log 10 v - p + 1
      in (round_half_even (scale 10 v (- x)), x))"
| "shortest_digits v p (Suc fuel) =
     (let x = floor_log 10 v - p + 1;
          s = scale 10 v (- x);
          lo = fst s div snd s;
          lo_nearer = (2 * (fst s mod snd s) \<le> snd s)
      in if round_trips v lo x \<and> (lo_nearer \<or> \<not> round_trips v (lo + 1) x) then (lo, x)
         else if round_trips v (lo + 1) x then (lo + 1, x)
         else shortest_digits v (p + 1) fuel)"

function strip_zeros :: "int \<Rightarrow> int \<Rightarrow> int \<times> int" where
  "strip_zeros m x = (if 0 < m \<and> m mod 10 = 0 then strip_zeros (m div 10) (x + 1) else (m, x))"
  by pat_completeness auto
termination
proof (relation "measure (\<lambda>mx. nat (fst mx))")
  show "wf (measure (\<lambda>mx. nat (fst mx)))" by simp
next
  fix m x :: int
  assume "0 < m \<and> m mod 10 = 0"
  then have "0 < m" by simp
  then have "m div 10 < m" by (rule int_div_less_self) simp
  with \<open>0 < m\<close> show "((m div 10, x + 1), (m, x)) \<in> measure (\<lambda>mx. nat (fst mx))" by simp
qed

declare strip_zeros.simps [simp del]

text \<open>The decimal digits of a non-negative integer.\<close>

function decimal :: "int \<Rightarrow> string" where
  "decimal n =
     (if n < 10 then [char_of (48 + n)] else decimal (n div 10) @ [char_of (48 + n mod 10)])"
  by pat_completeness auto
termination
proof (relation "measure nat")
  show "wf (measure nat)" by simp
next
  fix n :: int
  assume "\<not> n < 10"
  then have "0 < n" by simp
  then have "n div 10 < n" by (rule int_div_less_self) simp
  with \<open>0 < n\<close> show "(n div 10, n) \<in> measure nat" by simp
qed

declare decimal.simps [simp del]

text \<open>The exponent suffix both printers use: a sign and at least two digits.\<close>

definition exponent_suffix :: "int \<Rightarrow> string" where
  "exponent_suffix e =
     ''e'' @ (if e < 0 then ''-'' else ''+'') @ (if \<bar>e\<bar> < 10 then ''0'' else []) @ decimal \<bar>e\<bar>"

text \<open>Python's \<^verbatim>\<open>repr\<close> of a float, from its sign and value: the shortest digits, in
  exponent form when the decimal point would be more than 16 places right of the first
  digit or more than 3 places left of it.\<close>

definition float_repr :: "bool \<Rightarrow> frac \<Rightarrow> string" where
  "float_repr neg v =
     (if neg then ''-'' else []) @
     (if fst v = 0 then ''0.0''
      else case shortest_digits v 1 16 of (m0, x0) \<Rightarrow>
        (case strip_zeros m0 x0 of (m, x) \<Rightarrow>
          (let ds = decimal m; nd = length ds; decpt = int nd + x
           in if decpt \<le> - 4 \<or> decpt > 16
              then [hd ds] @ (if nd > 1 then ''.'' @ tl ds else []) @ exponent_suffix (decpt - 1)
              else if decpt \<le> 0 then ''0.'' @ replicate (nat (- decpt)) CHR ''0'' @ ds
              else if decpt \<ge> int nd then ds @ replicate (nat decpt - nd) CHR ''0'' @ ''.0''
              else take (nat decpt) ds @ ''.'' @ drop (nat decpt) ds)))"

text \<open>SQLite's text of a floating point number (\<^verbatim>\<open>%!.15g\<close>): 15 significant digits,
  rounded half up, trailing zeros removed but one digit kept after the point; exponent
  form when the exponent is below -4 or above 14.\<close>

definition float_text :: "bool \<Rightarrow> frac \<Rightarrow> string" where
  "float_text neg v =
     (if fst v = 0 then ''0.0''
      else
        (let x0 = floor_log 10 v - 14;
             s = scale 10 v (- x0);
             m0 = (if 2 * (fst s mod snd s) \<ge> snd s then fst s div snd s + 1 else fst s div snd s)
         in case strip_zeros m0 x0 of (m, x) \<Rightarrow>
           (let ds = decimal m; nd = length ds; e = int nd + x - 1
            in (if neg then ''-'' else []) @
               (if e < - 4 \<or> e > 14
                then [hd ds] @ ''.'' @ (if nd > 1 then tl ds else ''0'') @ exponent_suffix e
                else if e < 0 then ''0.'' @ replicate (nat (- e - 1)) CHR ''0'' @ ds
                else if int nd \<le> e + 1 then ds @ replicate (nat (e + 1) - nd) CHR ''0'' @ ''.0''
                else take (nat (e + 1)) ds @ ''.'' @ drop (nat (e + 1)) ds))))"

text \<open>A float is identified by its \<^verbatim>\<open>repr\<close>; these read the value back from it.  An
  infinity, a NaN or a string that is no \<^verbatim>\<open>repr\<close> has no value.\<close>

definition float_value :: "string \<Rightarrow> (bool \<times> frac) option" where
  "float_value r =
     (case parse_decimal r of
        None \<Rightarrow> None
      | Some (neg, m, e, lit) \<Rightarrow>
          (case decimal_double m e of None \<Rightarrow> None | Some v \<Rightarrow> Some (neg, v)))"

text \<open>The integer a float is converted to under INTEGER or NUMERIC affinity
  (\<^verbatim>\<open>sqlite3VdbeIntegerAffinity\<close>): its value, when that is an integer strictly between the
  least and the greatest 64-bit integer.\<close>

definition integer_of_value :: "bool \<Rightarrow> frac \<Rightarrow> int option" where
  "integer_of_value neg v =
     (if fst v mod snd v = 0
      then (let n = (if neg then - (fst v div snd v) else fst v div snd v)
            in if - (2 ^ 63) < n \<and> n < 2 ^ 63 - 1 then Some n else None)
      else None)"

definition real_integer :: "string \<Rightarrow> int option" where
  "real_integer r =
     (case float_value r of None \<Rightarrow> None | Some (neg, v) \<Rightarrow> integer_of_value neg v)"

definition real_text :: "string \<Rightarrow> string" where
  "real_text r =
     (if r = ''inf'' then ''Inf'' else if r = ''-inf'' then ''-Inf''
      else case float_value r of None \<Rightarrow> r | Some (neg, v) \<Rightarrow> float_text neg v)"

text \<open>The float an integer becomes, \<^verbatim>\<open>float(n)\<close>, by its \<^verbatim>\<open>repr\<close>.\<close>

definition int_real :: "int \<Rightarrow> string" where
  "int_real n =
     (case nearest_double (\<bar>n\<bar>, 1) of
        None \<Rightarrow> (if n < 0 then ''-inf'' else ''inf'')
      | Some v \<Rightarrow> float_repr (n < 0) v)"


section \<open>The SQLite store\<close>

text \<open>
  The schema is the one \<^verbatim>\<open>setup_database\<close> of \<^verbatim>\<open>a.DB_setup.py\<close> creates: table
  \<^verbatim>\<open>opensky_data\<close> with eighteen columns, of which \<^verbatim>\<open>icao24\<close>, \<^verbatim>\<open>origin_country\<close>,
  \<^verbatim>\<open>last_contact\<close>, \<^verbatim>\<open>on_ground\<close>, \<^verbatim>\<open>spi\<close> and \<^verbatim>\<open>fetch_time\<close> are \<^verbatim>\<open>NOT NULL\<close> and
  \<^verbatim>\<open>(icao24, last_contact)\<close> is the primary key, and table \<^verbatim>\<open>etl_log\<close> with an
  \<^verbatim>\<open>AUTOINCREMENT\<close> key.  The store is taken to work: opening the file, executing a
  statement and committing do not fail for reasons outside the data (a locked or missing
  file, a full disk); the last section lifts this assumption.
\<close>

datatype sqlval = Null | Integer int | Real string | Text string

type_synonym row = "sqlval list"

subsection \<open>Column affinity\<close>

text \<open>
  SQLite converts a bound value by the affinity of its column before it checks the
  constraints and stores it.  A numeric text in a column of INTEGER, NUMERIC or REAL
  affinity becomes a number (\<^verbatim>\<open>applyNumericAffinity\<close>): an integer when it is an integer
  literal of 64 bits, otherwise the float it reads as, which is in turn made an integer when
  it is one.  SQLite reads a decimal with extended precision and can miss the nearest double
  by one unit in the last place when the decimal is long or its exponent large; the model
  reads the nearest double.
\<close>

datatype affinity = TEXT | NUMERIC | INTEGER | REAL

definition numeric_text :: "string \<Rightarrow> sqlval option" where
  "numeric_text t =
     (case parse_decimal t of
        None \<Rightarrow> None
      | Some (neg, m, e, lit) \<Rightarrow>
          (let n = (if neg then - m else m)
           in if lit \<and> - (2 ^ 63) \<le> n \<and> n < 2 ^ 63 then Some (Integer n)
              else (case decimal_double m e of
                      None \<Rightarrow> Some (Real (if neg then ''-inf'' else ''inf''))
                    | Some v \<Rightarrow>
                        (case integer_of_value neg v of
                           Some i \<Rightarrow> Some (Integer i)
                         | None \<Rightarrow> Some (Real (float_repr neg v))))))"

text \<open>The value a column of the given affinity holds, as a query reads it back, for a
  value bound to it.  In a REAL column an integer reads back as a float, and so does a
  float that was stored as an integer, which turns a negative zero into zero.\<close>

fun apply_affinity :: "affinity \<Rightarrow> sqlval \<Rightarrow> sqlval" where
  "apply_affinity a Null = Null"
| "apply_affinity TEXT (Integer n) = Text (string_of_int n)"
| "apply_affinity TEXT (Real r) = Text (real_text r)"
| "apply_affinity TEXT (Text t) = Text t"
| "apply_affinity REAL (Integer n) = Real (int_real n)"
| "apply_affinity REAL (Real r) = Real (if r = ''-0.0'' then ''0.0'' else r)"
| "apply_affinity REAL (Text t) =
     (case numeric_text t of
        None \<Rightarrow> Text t
      | Some (Integer n) \<Rightarrow> Real (int_real n)
      | Some v \<Rightarrow> v)"
| "apply_affinity a (Integer n) = Integer n"
| "apply_affinity a (Real r) = (case real_integer r of Some n \<Rightarrow> Integer n | None \<Rightarrow> Real r)"
| "apply_affinity a (Text t) = (case numeric_text t of None \<Rightarrow> Text t | Some v \<Rightarrow> v)"

text \<open>The affinities of the eighteen columns of \<^verbatim>\<open>opensky_data\<close>, from their declared
  types (\<^verbatim>\<open>BOOLEAN\<close> gives NUMERIC), and the row that is stored for a row of bound values.\<close>

definition column_affinity :: "affinity list" where
  "column_affinity =
     [TEXT, TEXT, TEXT, INTEGER, INTEGER, REAL, REAL, REAL, NUMERIC, REAL,
      REAL, REAL, TEXT, REAL, TEXT, NUMERIC, INTEGER, TEXT]"

definition stored_row :: "row \<Rightarrow> row" where
  "stored_row r = map (\<lambda>av. apply_affinity (fst av) (snd av)) (zip column_affinity r)"

datatype status = Running | Success | Failure

record log_row =
  run_id :: nat
  start_time :: string
  end_time :: "string option"
  records_processed :: "int option"
  status :: status
  error_message :: "string option"

record database =
  opensky_data :: "row list"
  etl_log :: "log_row list"
  etl_log_seq :: nat

text \<open>Binding a Python value to a \<^verbatim>\<open>?\<close>: \<^verbatim>\<open>None\<close>, integers (a \<^verbatim>\<open>bool\<close> is one), floats
  and strings are supported; an integer must fit 64 bits; NaN is stored as \<^verbatim>\<open>NULL\<close>.\<close>

fun adapt :: "nat \<Rightarrow> pyval \<Rightarrow> exn + sqlval" where
  "adapt i PNone = Inr Null"
| "adapt i (PBool b) = Inr (Integer (if b then 1 else 0))"
| "adapt i (PInt n) =
     (if - (2 ^ 63) \<le> n \<and> n < 2 ^ 63 then Inr (Integer n) else Inl OverflowError)"
| "adapt i (PFloat r) = Inr (if r = ''nan'' then Null else Real r)"
| "adapt i (PStr s) = Inr (Text s)"
| "adapt i v = Inl (BindingType i (type_name v))"

definition bind_parameters :: "pyval list \<Rightarrow> exn + row" where
  "bind_parameters record =
     (if length record \<noteq> 18 then Inl (BindingCount (length record))
      else sequence_exn (map (\<lambda>iv. adapt (Suc (fst iv)) (snd iv)) (enumerate 0 record)))"

definition not_null_columns :: "nat list" where
  "not_null_columns = [0, 2, 4, 8, 15, 17]"

text \<open>The primary key index compares numbers by value, whatever their storage class, and
  texts by their bytes.  A float that is a whole number is therefore the same key value as
  that integer; this matters for the one whole number that affinity leaves a float although
  a 64-bit integer equals it, \<open>- 2 ^ 63\<close>.\<close>

definition index_value :: "sqlval \<Rightarrow> sqlval" where
  "index_value v =
     (case v of
        Real r \<Rightarrow>
          (case float_value r of
             None \<Rightarrow> v
           | Some (neg, q) \<Rightarrow>
               if fst q mod snd q = 0
               then Integer (if neg then - (fst q div snd q) else fst q div snd q)
               else v)
      | _ \<Rightarrow> v)"

definition natural_key :: "row \<Rightarrow> sqlval \<times> sqlval" where
  "natural_key r = (index_value (r ! 0), index_value (r ! 4))"

text \<open>\<^verbatim>\<open>INSERT OR IGNORE\<close> of one row of bound values: the row is converted by the columns'
  affinities; a row that violates \<^verbatim>\<open>NOT NULL\<close> or whose key is in the table is skipped;
  the second component is the statement's change count.\<close>

definition insert_or_ignore :: "row \<Rightarrow> database \<Rightarrow> database \<times> nat" where
  "insert_or_ignore r d =
     (if list_ex (\<lambda>i. stored_row r ! i = Null) not_null_columns
         \<or> natural_key (stored_row r) \<in> set (map natural_key (opensky_data d))
      then (d, 0)
      else (d\<lparr>opensky_data := opensky_data d @ [stored_row r]\<rparr>, 1))"

text \<open>\<^verbatim>\<open>cursor.executemany(insert_query, records)\<close>: the statement runs once per record,
  in order; \<^verbatim>\<open>cursor.rowcount\<close> is the sum of the change counts.  An exception while
  binding a record leaves the rows inserted before it in the open transaction.\<close>

fun executemany :: "pyval list list \<Rightarrow> database \<Rightarrow> database \<times> (exn + nat)" where
  "executemany [] d = (d, Inr 0)"
| "executemany (record # records) d =
     (case bind_parameters record of
        Inl e \<Rightarrow> (d, Inl e)
      | Inr r \<Rightarrow>
          (case insert_or_ignore r d of
             (d', n) \<Rightarrow>
               (case executemany records d' of
                  (d'', Inl e) \<Rightarrow> (d'', Inl e)
                | (d'', Inr m) \<Rightarrow> (d'', Inr (n + m)))))"

text \<open>A connection: the database as committed (\<open>durable\<close>), the database as the
  connection sees it with its open transaction (\<open>txn\<close>), and, for reasoning about a
  process that stops midway, the committed states in the order the commits made them.
  Closing a connection drops what was not committed.\<close>

record connection =
  durable :: database
  txn :: database
  commits :: "database list"

definition connect :: "database \<Rightarrow> connection" where
  "connect db = \<lparr>durable = db, txn = db, commits = []\<rparr>"

definition commit :: "connection \<Rightarrow> connection" where
  "commit conn = conn\<lparr>durable := txn conn, commits := commits conn @ [txn conn]\<rparr>"

definition close :: "connection \<Rightarrow> database" where
  "close conn = durable conn"

section \<open>The run log: \<^verbatim>\<open>log_etl_run\<close>\<close>

text \<open>The key of an inserted \<^verbatim>\<open>etl_log\<close> row (\<^verbatim>\<open>cursor.lastrowid\<close>): with
  \<^verbatim>\<open>AUTOINCREMENT\<close>, one more than the largest key the table holds or ever issued.\<close>

definition next_run_id :: "database \<Rightarrow> nat" where
  "next_run_id d = Suc (fold max (map run_id (etl_log d)) (etl_log_seq d))"

text \<open>\<^verbatim>\<open>INSERT INTO etl_log (start_time, status) VALUES (?, ?)\<close>\<close>

definition insert_run :: "string \<Rightarrow> status \<Rightarrow> database \<Rightarrow> database" where
  "insert_run now_time st d =
     d\<lparr>etl_log := etl_log d @
          [\<lparr>run_id = next_run_id d, start_time = now_time, end_time = None,
            records_processed = None, status = st, error_message = None\<rparr>],
       etl_log_seq := next_run_id d\<rparr>"

text \<open>\<^verbatim>\<open>UPDATE etl_log SET end_time = ?, records_processed = ?, status = ?,
  error_message = ? WHERE run_id = ?\<close>\<close>

definition update_run ::
  "string \<Rightarrow> int \<Rightarrow> status \<Rightarrow> string option \<Rightarrow> nat \<Rightarrow> database \<Rightarrow> database" where
  "update_run now_time records st error_msg rid d =
     d\<lparr>etl_log :=
         map (\<lambda>r. if run_id r = rid
                   then r\<lparr>end_time := Some now_time, records_processed := Some records,
                          status := st, error_message := error_msg\<rparr>
                   else r)
             (etl_log d)\<rparr>"

text \<open>\<^verbatim>\<open>if run_id:\<close> holds for an identifier that is neither \<^verbatim>\<open>None\<close> nor 0.\<close>

fun run_id_truthy :: "nat option \<Rightarrow> bool" where
  "run_id_truthy None = False"
| "run_id_truthy (Some i) = (i \<noteq> 0)"

text \<open>\<^verbatim>\<open>log_etl_run(conn, status, records=0, error_msg=None, run_id=None)\<close>, with the value
  of \<^verbatim>\<open>datetime.now().isoformat()\<close> as its first argument.  The update branch commits and
  returns \<^verbatim>\<open>None\<close>; the insert branch returns \<^verbatim>\<open>cursor.lastrowid\<close> before the commit is
  reached.\<close>

definition log_etl_run ::
  "string \<Rightarrow> connection \<Rightarrow> status \<Rightarrow> int \<Rightarrow> string option \<Rightarrow> nat option
     \<Rightarrow> connection \<times> nat option" where
  "log_etl_run now_time conn st records error_msg rid =
     (if run_id_truthy rid
      then (commit (conn\<lparr>txn := update_run now_time records st error_msg (the rid) (txn conn)\<rparr>),
            None)
      else (conn\<lparr>txn := insert_run now_time st (txn conn)\<rparr>, Some (next_run_id (txn conn))))"

section \<open>One cycle: \<^verbatim>\<open>fetch_and_append_data\<close>\<close>

text \<open>What one cycle reads from outside: the clock at the three places it is read, and
  the outcome of lines 47 to 50 (\<^verbatim>\<open>requests.get\<close>, \<^verbatim>\<open>raise_for_status\<close>,
  \<^verbatim>\<open>response.json()\<close>), which is the exception one of them raised or the decoded body.\<close>

record world =
  now_begin :: string
  utcnow :: string
  now_end :: string
  response :: "exn + pyval"

datatype log_msg = Info string | Warning string | Error string

text \<open>Lines 81 to 84: \<^verbatim>\<open>executemany\<close>, \<^verbatim>\<open>conn.commit()\<close>, \<^verbatim>\<open>cursor.rowcount\<close>.\<close>

definition load :: "connection \<Rightarrow> pyval list list \<Rightarrow> connection \<times> (exn + nat)" where
  "load conn records =
     (case executemany records (txn conn) of
        (d, Inl e) \<Rightarrow> (conn\<lparr>txn := d\<rparr>, Inl e)
      | (d, Inr records_inserted) \<Rightarrow> (commit (conn\<lparr>txn := d\<rparr>), Inr records_inserted))"

text \<open>The body of the \<^verbatim>\<open>try\<close> from line 46 on.  It returns the connection, the messages
  logged and the exception, if one was raised.\<close>

definition try_body ::
  "world \<Rightarrow> connection \<Rightarrow> nat option \<Rightarrow> connection \<times> log_msg list \<times> exn option" where
  "try_body w conn rid =
     (let started =
            [Info (''Starting ETL Cycle (Run ID: '' @ string_of_nat (the rid) @ '')...'')]
      in case response w of
           Inl e \<Rightarrow> (conn, started, Some e)
         | Inr data \<Rightarrow>
             (case py_get data ''states'' (PList []) of
                Inl e \<Rightarrow> (conn, started, Some e)
              | Inr states \<Rightarrow>
                  if \<not> truthy states
                  then (fst (log_etl_run (now_end w) conn Success 0 None rid),
                        started @ [Warning ''No flight data received in this cycle.''], None)
                  else
                    (case py_iter states of
                       Inl e \<Rightarrow> (conn, started, Some e)
                     | Inr ss \<Rightarrow>
                         (case records_to_insert (utcnow w) ss of
                            Inl e \<Rightarrow> (conn, started, Some e)
                          | Inr records \<Rightarrow>
                              if records \<noteq> []
                              then (case load conn records of
                                      (conn', Inl e) \<Rightarrow> (conn', started, Some e)
                                    | (conn', Inr records_inserted) \<Rightarrow>
                                        (fst (log_etl_run (now_end w) conn' Success
                                                (int records_inserted) None rid),
                                         started @ [Info (''Inserted '' @ string_of_nat records_inserted
                                                          @ '' new records.'')],
                                         None))
                              else (fst (log_etl_run (now_end w) conn Success 0 None rid),
                                    started @ [Info ''No valid records to insert for this cycle.''],
                                    None)))))"

text \<open>Lines 47 to 70 on their own: the exception raised, or the records to insert, of
  which there are none when \<^verbatim>\<open>states\<close> is absent or empty.\<close>

definition prepare :: "world \<Rightarrow> exn + pyval list list" where
  "prepare w =
     (case response w of
        Inl e \<Rightarrow> Inl e
      | Inr data \<Rightarrow>
          (case py_get data ''states'' (PList []) of
             Inl e \<Rightarrow> Inl e
           | Inr states \<Rightarrow>
               if \<not> truthy states then Inr []
               else (case py_iter states of
                       Inl e \<Rightarrow> Inl e
                     | Inr ss \<Rightarrow> records_to_insert (utcnow w) ss)))"

record cycle_result =
  db_after :: database
  commit_trace :: "database list"
  messages :: "log_msg list"

definition finish :: "connection \<Rightarrow> log_msg list \<Rightarrow> cycle_result" where
  "finish conn msgs = \<lparr>db_after = close conn, commit_trace = commits conn, messages = msgs\<rparr>"

text \<open>The whole function: connect, open the run, run the body, and in the \<^verbatim>\<open>except\<close>
  clause log the failure under the run's identifier; \<^verbatim>\<open>finally\<close> closes the connection.\<close>

definition fetch_and_append_data :: "world \<Rightarrow> database \<Rightarrow> cycle_result" where
  "fetch_and_append_data w db =
     (case log_etl_run (now_begin w) (connect db) Running 0 None None of
        (conn, rid) \<Rightarrow>
          (case try_body w conn rid of
             (conn', msgs, None) \<Rightarrow> finish conn' msgs
           | (conn', msgs, Some e) \<Rightarrow>
               (let msg = str_exn e
                in finish
                     (if run_id_truthy rid
                      then fst (log_etl_run (now_end w) conn' Failure 0 (Some msg) rid)
                      else conn')
                     (msgs @ [Error (''ETL cycle failed: '' @ msg)]))))"

section \<open>The driver\<close>

definition num_cycles :: nat where
  "num_cycles = 144"




section \<open>The same code on a store that can fail\<close>

text \<open>
  The definitions so far take every call into \<^verbatim>\<open>sqlite3\<close> to succeed.  Each of them can
  raise for reasons outside the data, such as \<^verbatim>\<open>OperationalError: database is locked\<close> when
  another process holds the file.  To follow such an exception through the function and
  the driver, the code is modelled once more with the errors of the store as an input: for
  each place where one cycle calls \<^verbatim>\<open>sqlite3\<close>, the message of the error raised there, if
  any.  For \<^verbatim>\<open>executemany\<close> the error comes with the number of the record at which the
  statement fails; the records before it have been executed.  A commit that fails leaves
  the transaction open.  With no errors these definitions are the ones above (lemmas
  \<open>fetch_and_append_data_no_errors\<close> and \<open>etl_session_no_errors\<close>).
\<close>

record sqlite_errors =
  on_connect :: "string option"
  on_begin :: "string option"
  on_executemany :: "(nat \<times> string) option"
  on_load_commit :: "string option"
  on_end_update :: "string option"
  on_end_commit :: "string option"
  on_failure_update :: "string option"
  on_failure_commit :: "string option"

definition no_errors :: sqlite_errors where
  "no_errors =
     \<lparr>on_connect = None, on_begin = None, on_executemany = None, on_load_commit = None,
       on_end_update = None, on_end_commit = None, on_failure_update = None,
       on_failure_commit = None\<rparr>"

text \<open>\<^verbatim>\<open>log_etl_run\<close>, given the error of its \<^verbatim>\<open>cursor.execute\<close> and the error of its
  \<^verbatim>\<open>conn.commit()\<close>.\<close>

definition log_etl_run_err ::
  "string option \<Rightarrow> string option \<Rightarrow> string \<Rightarrow> connection \<Rightarrow> status \<Rightarrow> int \<Rightarrow> string option
     \<Rightarrow> nat option \<Rightarrow> connection \<times> (exn + nat option)" where
  "log_etl_run_err execute_error commit_error now_time conn st records error_msg rid =
     (case execute_error of
        Some m \<Rightarrow> (conn, Inl (OperationalError m))
      | None \<Rightarrow>
          if run_id_truthy rid
          then (case commit_error of
                  Some m \<Rightarrow>
                    (conn\<lparr>txn := update_run now_time records st error_msg (the rid) (txn conn)\<rparr>,
                     Inl (OperationalError m))
                | None \<Rightarrow>
                    (commit (conn\<lparr>txn := update_run now_time records st error_msg (the rid)
                                             (txn conn)\<rparr>),
                     Inr None))
          else (conn\<lparr>txn := insert_run now_time st (txn conn)\<rparr>,
                Inr (Some (next_run_id (txn conn)))))"

fun executemany_err ::
  "(nat \<times> string) option \<Rightarrow> pyval list list \<Rightarrow> database \<Rightarrow> database \<times> (exn + nat)" where
  "executemany_err err [] d = (d, Inr 0)"
| "executemany_err err (record # records) d =
     (case bind_parameters record of
        Inl e \<Rightarrow> (d, Inl e)
      | Inr r \<Rightarrow>
          (case err of
             Some (0, m) \<Rightarrow> (d, Inl (OperationalError m))
           | _ \<Rightarrow>
               (case insert_or_ignore r d of
                  (d', n) \<Rightarrow>
                    (case executemany_err (map_option (\<lambda>km. (fst km - 1, snd km)) err) records d' of
                       (d'', Inl e) \<Rightarrow> (d'', Inl e)
                     | (d'', Inr m) \<Rightarrow> (d'', Inr (n + m))))))"

definition load_err ::
  "sqlite_errors \<Rightarrow> connection \<Rightarrow> pyval list list \<Rightarrow> connection \<times> (exn + nat)" where
  "load_err errs conn records =
     (case executemany_err (on_executemany errs) records (txn conn) of
        (d, Inl e) \<Rightarrow> (conn\<lparr>txn := d\<rparr>, Inl e)
      | (d, Inr records_inserted) \<Rightarrow>
          (case on_load_commit errs of
             Some m \<Rightarrow> (conn\<lparr>txn := d\<rparr>, Inl (OperationalError m))
           | None \<Rightarrow> (commit (conn\<lparr>txn := d\<rparr>), Inr records_inserted)))"

text \<open>The Success call of \<^verbatim>\<open>log_etl_run\<close> at the end of the \<^verbatim>\<open>try\<close>: the connection it
  leaves and the exception it raised, if any.\<close>

definition end_run_success ::
  "sqlite_errors \<Rightarrow> world \<Rightarrow> connection \<Rightarrow> int \<Rightarrow> nat option \<Rightarrow> connection \<times> exn option" where
  "end_run_success errs w conn records rid =
     (case log_etl_run_err (on_end_update errs) (on_end_commit errs) (now_end w) conn Success
             records None rid of
        (conn', Inl e) \<Rightarrow> (conn', Some e)
      | (conn', Inr r) \<Rightarrow> (conn', None))"

definition try_body_err ::
  "sqlite_errors \<Rightarrow> world \<Rightarrow> connection \<Rightarrow> nat option
     \<Rightarrow> connection \<times> log_msg list \<times> exn option" where
  "try_body_err errs w conn rid =
     (let started =
            [Info (''Starting ETL Cycle (Run ID: '' @ string_of_nat (the rid) @ '')...'')]
      in case response w of
           Inl e \<Rightarrow> (conn, started, Some e)
         | Inr data \<Rightarrow>
             (case py_get data ''states'' (PList []) of
                Inl e \<Rightarrow> (conn, started, Some e)
              | Inr states \<Rightarrow>
                  if \<not> truthy states
                  then (case end_run_success errs w conn 0 rid of
                          (conn', x) \<Rightarrow>
                            (conn', started @ [Warning ''No flight data received in this cycle.''],
                             x))
                  else
                    (case py_iter states of
                       Inl e \<Rightarrow> (conn, started, Some e)
                     | Inr ss \<Rightarrow>
                         (case records_to_insert (utcnow w) ss of
                            Inl e \<Rightarrow> (conn, started, Some e)
                          | Inr records \<Rightarrow>
                              if records \<noteq> []
                              then (case load_err errs conn records of
                                      (conn', Inl e) \<Rightarrow> (conn', started, Some e)
                                    | (conn', Inr records_inserted) \<Rightarrow>
                                        (case end_run_success errs w conn'
                                                (int records_inserted) rid of
                                           (conn'', x) \<Rightarrow>
                                             (conn'',
                                              started @ [Info (''Inserted ''
                                                @ string_of_nat records_inserted
                                                @ '' new records.'')],
                                              x)))
                              else (case end_run_success errs w conn 0 rid of
                                      (conn', x) \<Rightarrow>
                                        (conn',
                                         started
                                           @ [Info ''No valid records to insert for this cycle.''],
                                         x))))))"

text \<open>What a call of \<^verbatim>\<open>fetch_and_append_data\<close> comes to: the database, commits and messages
  as before, and the exception that leaves the function, if one does.\<close>

record cycle_outcome =
  outcome :: cycle_result
  raised :: "exn option"

text \<open>When \<^verbatim>\<open>sqlite3.connect\<close> raises, \<^verbatim>\<open>conn\<close> is \<^verbatim>\<open>None\<close>; when the insert of the run raises,
  \<^verbatim>\<open>run_id\<close> is \<^verbatim>\<open>None\<close>: in both cases the \<^verbatim>\<open>except\<close> clause logs the message only.  An
  exception raised by \<^verbatim>\<open>log_etl_run\<close> inside the \<^verbatim>\<open>except\<close> clause is not handled: it leaves
  the function once \<^verbatim>\<open>finally\<close> has closed the connection.\<close>

definition fetch_and_append_data_err ::
  "sqlite_errors \<Rightarrow> world \<Rightarrow> database \<Rightarrow> cycle_outcome" where
  "fetch_and_append_data_err errs w db =
     (case on_connect errs of
        Some m \<Rightarrow>
          \<lparr>outcome = \<lparr>db_after = db, commit_trace = [],
                       messages = [Error (''ETL cycle failed: '' @ m)]\<rparr>,
            raised = None\<rparr>
      | None \<Rightarrow>
          (case log_etl_run_err (on_begin errs) None (now_begin w) (connect db) Running 0 None
                  None of
             (conn, Inl e) \<Rightarrow>
               \<lparr>outcome = finish conn [Error (''ETL cycle failed: '' @ str_exn e)], raised = None\<rparr>
           | (conn, Inr rid) \<Rightarrow>
               (case try_body_err errs w conn rid of
                  (conn', msgs, None) \<Rightarrow> \<lparr>outcome = finish conn' msgs, raised = None\<rparr>
                | (conn', msgs, Some e) \<Rightarrow>
                    (let msg = str_exn e;
                         msgs' = msgs @ [Error (''ETL cycle failed: '' @ msg)]
                     in if run_id_truthy rid
                        then (case log_etl_run_err (on_failure_update errs)
                                     (on_failure_commit errs) (now_end w) conn' Failure 0
                                     (Some msg) rid of
                                (conn'', Inl e') \<Rightarrow>
                                  \<lparr>outcome = finish conn'' msgs', raised = Some e'\<rparr>
                              | (conn'', Inr r) \<Rightarrow>
                                  \<lparr>outcome = finish conn'' msgs', raised = None\<rparr>)
                        else \<lparr>outcome = finish conn' msgs', raised = None\<rparr>))))"

text \<open>The driver's loop has no handler: the first cycle that raises ends it, and the
  exception ends the program before \<^verbatim>\<open>ETL session complete\<close> is logged.\<close>

fun run_cycles ::
  "nat \<Rightarrow> (nat \<Rightarrow> sqlite_errors) \<Rightarrow> (nat \<Rightarrow> world) \<Rightarrow> nat list \<Rightarrow> database \<times> log_msg list
     \<Rightarrow> (database \<times> log_msg list) \<times> exn option" where
  "run_cycles n errs env [] acc = (acc, None)"
| "run_cycles n errs env (i # rest) acc =
     (let r = fetch_and_append_data_err (errs i) (env i) (fst acc);
          out = snd acc
            @ [Info (''--- Cycle '' @ string_of_nat (i + 1) @ '' of '' @ string_of_nat n @ '' ---'')]
            @ messages (outcome r)
      in case raised r of
           Some e \<Rightarrow> ((db_after (outcome r), out), Some e)
         | None \<Rightarrow>
             run_cycles n errs env rest
               (db_after (outcome r),
                out @ (if i < n - 1
                       then [Info (''Cycle complete. Waiting 600 seconds...'' @ [CHR 0x0A])]
                       else [])))"

definition etl_session_err ::
  "nat \<Rightarrow> (nat \<Rightarrow> sqlite_errors) \<Rightarrow> (nat \<Rightarrow> world) \<Rightarrow> database
     \<Rightarrow> (database \<times> log_msg list) \<times> exn option" where
  "etl_session_err n errs env db =
     (case run_cycles n errs env [0..<n]
             (db, [Info (''Starting OpenSky ETL job for '' @ string_of_nat n
                         @ '' cycles (24 hours)...'')]) of
        (acc, Some e) \<Rightarrow> (acc, Some e)
      | (acc, None) \<Rightarrow> ((fst acc, snd acc @ [Info ''ETL session complete.'']), None))"

definition main_err ::
  "(nat \<Rightarrow> sqlite_errors) \<Rightarrow> (nat \<Rightarrow> world) \<Rightarrow> database
     \<Rightarrow> (database \<times> log_msg list) \<times> exn option" where
  "main_err errs env db = etl_session_err num_cycles errs env db"

section \<open>Auxiliary definitions\<close>

text \<open>The connection as lines 41 to 43 leave it: opened on \<open>db\<close>, with the run's row
  inserted.\<close>

definition begun :: "world \<Rightarrow> database \<Rightarrow> connection" where
  "begun w db = fst (log_etl_run (now_begin w) (connect db) Running 0 None None)"

text \<open>A row of bound values that \<^verbatim>\<open>INSERT OR IGNORE\<close> would skip in database \<open>d\<close>.\<close>

definition skipped :: "row \<Rightarrow> database \<Rightarrow> bool" where
  "skipped r d =
     (list_ex (\<lambda>i. stored_row r ! i = Null) not_null_columns
        \<or> natural_key (stored_row r) \<in> set (map natural_key (opensky_data d)))"

section \<open>Concrete inputs\<close>

text \<open>The state vector of the specification's end-to-end scenario, the record and the row
  it becomes, and a few stores, batches and worlds built from them.  \<open>empty_db\<close> is the
  database as \<^verbatim>\<open>setup_database\<close> creates it: both tables, no rows.\<close>

definition example_state :: pyval where
  "example_state =
     PList [PStr ''abc123'', PStr ''UAL123 '', PStr ''United States'', PInt 1690000000,
            PInt 1690000005, PFloat ''10.1'', PFloat ''20.2'', PFloat ''3000.0'', PBool False,
            PFloat ''250.0'', PFloat ''90.0'', PFloat ''0.0'', PList [PInt 1, PInt 2],
            PFloat ''3100.0'', PStr ''1200'', PBool False, PInt 0, PNone]"

definition blank_callsign_state :: pyval where
  "blank_callsign_state =
     PList [PStr ''abc123'', PStr ''        '', PStr ''United States'', PInt 1690000000,
            PInt 1690000005, PFloat ''10.1'', PFloat ''20.2'', PFloat ''3000.0'', PBool False,
            PFloat ''250.0'', PFloat ''90.0'', PFloat ''0.0'', PList [PInt 1, PInt 2],
            PFloat ''3100.0'', PStr ''1200'', PBool False, PInt 0, PNone]"

definition example_record :: "string \<Rightarrow> string \<Rightarrow> pyval list" where
  "example_record icao fetch_time =
     [PStr icao, PStr ''UAL123'', PStr ''United States'', PInt 1690000000,
      PInt 1690000005, PFloat ''10.1'', PFloat ''20.2'', PFloat ''3000.0'', PBool False,
      PFloat ''250.0'', PFloat ''90.0'', PFloat ''0.0'', PStr ''1,2'',
      PFloat ''3100.0'', PStr ''1200'', PBool False, PInt 0, PStr fetch_time]"

definition example_row :: "string \<Rightarrow> string \<Rightarrow> row" where
  "example_row icao fetch_time =
     [Text icao, Text ''UAL123'', Text ''United States'', Integer 1690000000,
      Integer 1690000005, Real ''10.1'', Real ''20.2'', Real ''3000.0'', Integer 0,
      Real ''250.0'', Real ''90.0'', Real ''0.0'', Text ''1,2'',
      Real ''3100.0'', Text ''1200'', Integer 0, Integer 0, Text fetch_time]"

definition empty_db :: database where
  "empty_db = \<lparr>opensky_data = [], etl_log = [], etl_log_seq = 0\<rparr>"



definition example_world :: world where
  "example_world =
     \<lparr>now_begin = ''t0'', utcnow = ''tf'', now_end = ''t1'',
       response = Inr (PDict [(''states'', PList [example_state])])\<rparr>"

definition failing_world :: world where
  "failing_world =
     \<lparr>now_begin = ''t0'', utcnow = ''tf'', now_end = ''t1'',
       response = Inl (HTTPError ''503 Server Error'')\<rparr>"

definition quiet_world :: world where
  "quiet_world =
     \<lparr>now_begin = ''t0'', utcnow = ''tf'', now_end = ''t1'',
       response = Inr (PDict [(''time'', PInt 1690000000), (''states'', PNone)])\<rparr>"

section \<open>Facts about the run log\<close>

lemma fold_max_ge: "a \<le> fold max xs (a::nat)"
  by (induction xs arbitrary: a) (auto intro: order_trans [OF max.cobounded2])

lemma fold_max_mem: "x \<in> set xs \<Longrightarrow> x \<le> fold max xs (a::nat)"
proof (induction xs arbitrary: a)
  case Nil
  then show ?case by simp
next
  case (Cons y ys)
  show ?case
  proof (cases "x = y")
    case True
    have "max y a \<le> fold max ys (max y a)" by (rule fold_max_ge)
    with True show ?thesis by simp
  next
    case False
    with Cons show ?thesis by simp
  qed
qed

lemma next_run_id_fresh: "r \<in> set (etl_log d) \<Longrightarrow> run_id r < next_run_id d"
  unfolding next_run_id_def
  using fold_max_mem [of "run_id r" "map run_id (etl_log d)" "etl_log_seq d"]
  by (simp add: less_Suc_eq_le)

lemma next_run_id_pos: "next_run_id d \<noteq> 0"
  by (simp add: next_run_id_def)

lemma log_etl_run_update:
  "rid \<noteq> 0 \<Longrightarrow> log_etl_run t conn st k em (Some rid) =
     (commit (conn\<lparr>txn := update_run t k st em rid (txn conn)\<rparr>), None)"
  by (simp add: log_etl_run_def)

lemma update_run_last:
  assumes "etl_log d = old @ [row]" "run_id row = rid" "\<forall>r\<in>set old. run_id r \<noteq> rid"
  shows "update_run t k st em rid d =
           d\<lparr>etl_log := old @ [row\<lparr>end_time := Some t, records_processed := Some k,
                                    status := st, error_message := em\<rparr>]\<rparr>"
proof -
  have "map (\<lambda>r. if run_id r = rid
                   then r\<lparr>end_time := Some t, records_processed := Some k,
                          status := st, error_message := em\<rparr>
                   else r) old = old"
    using assms(3) by (induction old) auto
  with assms(1,2) show ?thesis by (simp add: update_run_def)
qed

lemma update_run_absent:
  assumes "\<forall>r\<in>set (etl_log d). run_id r \<noteq> rid"
  shows "update_run t k st em rid d = d"
proof -
  have "map (\<lambda>r. if run_id r = rid
                   then r\<lparr>end_time := Some t, records_processed := Some k,
                          status := st, error_message := em\<rparr>
                   else r) (etl_log d) = etl_log d"
    using assms by (intro map_idI) auto
  then show ?thesis by (simp add: update_run_def)
qed

lemma end_run_last:
  assumes "etl_log (txn conn) = old @ [row]" "run_id row = rid"
    "\<forall>r\<in>set old. run_id r \<noteq> rid" "rid \<noteq> 0"
  shows "fst (log_etl_run t conn st k em (Some rid)) =
           commit (conn\<lparr>txn := (txn conn)\<lparr>etl_log := old @ [row\<lparr>end_time := Some t,
              records_processed := Some k, status := st, error_message := em\<rparr>]\<rparr>\<rparr>)"
  using assms by (simp add: log_etl_run_update update_run_last)

lemma begin_run:
  "log_etl_run (now_begin w) (connect db) Running 0 None None = (begun w db, Some (next_run_id db))"
  "durable (begun w db) = db"
  "commits (begun w db) = []"
  "opensky_data (txn (begun w db)) = opensky_data db"
  "etl_log (txn (begun w db)) = etl_log db @
      [\<lparr>run_id = next_run_id db, start_time = now_begin w, end_time = None,
        records_processed = None, status = Running, error_message = None\<rparr>]"
  "etl_log_seq (txn (begun w db)) = next_run_id db"
  by (simp_all add: begun_def log_etl_run_def connect_def insert_run_def)

section \<open>Facts about the load\<close>

lemma insert_or_ignore_cases:
  "insert_or_ignore r d = (d, 0) \<and> skipped r d
   \<or> insert_or_ignore r d = (d\<lparr>opensky_data := opensky_data d @ [stored_row r]\<rparr>, 1)
       \<and> \<not> skipped r d"
  by (simp add: insert_or_ignore_def skipped_def)

lemma insert_or_ignore_skipped_after: "skipped r (fst (insert_or_ignore r d))"
  by (auto simp: insert_or_ignore_def skipped_def)

lemma executemany_Cons:
  assumes "executemany (r # rs) d = (d', x)" "bind_parameters r = Inr row"
    "insert_or_ignore row d = (d1, n)" "executemany rs d1 = (d2, y)"
  shows "d' = d2" "x = (case y of Inl e \<Rightarrow> Inl e | Inr m \<Rightarrow> Inr (n + m))"
proof -
  have "(d', x) = (d2, case y of Inl e \<Rightarrow> Inl e | Inr m \<Rightarrow> Inr (n + m))"
    using assms by (cases y) auto
  then show "d' = d2" "x = (case y of Inl e \<Rightarrow> Inl e | Inr m \<Rightarrow> Inr (n + m))"
    by simp_all
qed

lemma executemany_frame:
  "executemany records d = (d', x) \<Longrightarrow>
     etl_log d' = etl_log d \<and> etl_log_seq d' = etl_log_seq d"
proof (induction records arbitrary: d d' x)
  case Nil
  then show ?case by simp
next
  case (Cons r rs)
  show ?case
  proof (cases "bind_parameters r")
    case (Inl e)
    with Cons.prems show ?thesis by simp
  next
    case (Inr row)
    obtain d1 n where ins: "insert_or_ignore row d = (d1, n)"
      by (cases "insert_or_ignore row d")
    obtain d2 y where rest: "executemany rs d1 = (d2, y)"
      by (cases "executemany rs d1")
    note c = executemany_Cons [OF Cons.prems Inr ins rest]
    from ins have "etl_log d1 = etl_log d \<and> etl_log_seq d1 = etl_log_seq d"
      by (auto simp: insert_or_ignore_def split: if_splits)
    with c(1) Cons.IH [OF rest] show ?thesis by simp
  qed
qed

lemma executemany_appends:
  "executemany records d = (d', x) \<Longrightarrow>
     \<exists>added. opensky_data d' = opensky_data d @ added
        \<and> distinct (map natural_key added)
        \<and> set (map natural_key added) \<inter> set (map natural_key (opensky_data d)) = {}
        \<and> (case x of Inl e \<Rightarrow> True | Inr n \<Rightarrow> n = length added)"
proof (induction records arbitrary: d d' x)
  case Nil
  then show ?case by auto
next
  case (Cons r rs)
  show ?case
  proof (cases "bind_parameters r")
    case (Inl e)
    with Cons.prems show ?thesis by auto
  next
    case (Inr row)
    obtain d1 n where ins: "insert_or_ignore row d = (d1, n)"
      by (cases "insert_or_ignore row d")
    obtain d2 y where rest: "executemany rs d1 = (d2, y)"
      by (cases "executemany rs d1")
    note c = executemany_Cons [OF Cons.prems Inr ins rest]
    from Cons.IH [OF rest] obtain added where
      a1: "opensky_data d2 = opensky_data d1 @ added" and
      a2: "distinct (map natural_key added)" and
      a3: "set (map natural_key added) \<inter> set (map natural_key (opensky_data d1)) = {}" and
      a4: "case y of Inl e \<Rightarrow> True | Inr m \<Rightarrow> m = length added"
      by blast
    from insert_or_ignore_cases [of row d] ins
    consider (skip) "d1 = d" "n = 0"
      | (new) "d1 = d\<lparr>opensky_data := opensky_data d @ [stored_row row]\<rparr>" "n = 1"
          "\<not> skipped row d"
      by auto
    then show ?thesis
    proof cases
      case skip
      with a1 a2 a3 a4 c show ?thesis by (auto split: sum.splits)
    next
      case new
      have k: "natural_key (stored_row row) \<notin> set (map natural_key (opensky_data d))"
        using new(3) by (simp add: skipped_def)
      have "opensky_data d' = opensky_data d @ (stored_row row # added)"
        using a1 new(1) c(1) by simp
      moreover have "distinct (map natural_key (stored_row row # added))"
        using a2 a3 new(1) by auto
      moreover have
        "set (map natural_key (stored_row row # added))
           \<inter> set (map natural_key (opensky_data d)) = {}"
        using a3 new(1) k by auto
      moreover have "case x of Inl e \<Rightarrow> True | Inr m \<Rightarrow> m = length (stored_row row # added)"
        using a4 c(2) new(2) by (auto split: sum.splits)
      ultimately show ?thesis by blast
    qed
  qed
qed

lemma skipped_mono:
  "skipped r d \<Longrightarrow> executemany records d = (d', x) \<Longrightarrow> skipped r d'"
  using executemany_appends [of records d d' x] by (auto simp: skipped_def)


lemma executemany_twice:
  "executemany records d = (d', x) \<Longrightarrow>
     executemany records d' = (d', case x of Inl e \<Rightarrow> Inl e | Inr n \<Rightarrow> Inr 0)"
proof (induction records arbitrary: d d' x)
  case Nil
  then show ?case by auto
next
  case (Cons r rs)
  show ?case
  proof (cases "bind_parameters r")
    case (Inl e)
    with Cons.prems show ?thesis by auto
  next
    case (Inr row)
    obtain d1 n where ins: "insert_or_ignore row d = (d1, n)"
      by (cases "insert_or_ignore row d")
    obtain d2 y where rest: "executemany rs d1 = (d2, y)"
      by (cases "executemany rs d1")
    note c = executemany_Cons [OF Cons.prems Inr ins rest]
    have "skipped row d1" using insert_or_ignore_skipped_after [of row d] ins by simp
    then have "skipped row d2" using rest by (rule skipped_mono)
    then have again: "insert_or_ignore row d2 = (d2, 0)"
      by (simp add: insert_or_ignore_def skipped_def)
    from Cons.IH [OF rest]
    have "executemany rs d2 = (d2, case y of Inl e \<Rightarrow> Inl e | Inr n \<Rightarrow> Inr 0)" .
    with Inr again c show ?thesis by (simp split: sum.splits)
  qed
qed

lemma load_frame:
  assumes "load conn records = (conn', res)"
  shows "etl_log (txn conn') = etl_log (txn conn)"
    and "etl_log_seq (txn conn') = etl_log_seq (txn conn)"
    and "res = Inr n \<Longrightarrow> durable conn' = txn conn'"
    and "res = Inr n \<Longrightarrow>
           length (opensky_data (txn conn')) = length (opensky_data (txn conn)) + n"
    and "res = Inr n \<Longrightarrow> commits conn' = commits conn @ [txn conn']"
    and "res = Inl e \<Longrightarrow> durable conn' = durable conn"
    and "res = Inl e \<Longrightarrow> commits conn' = commits conn"
proof -
  obtain d x where ex: "executemany records (txn conn) = (d, x)"
    by (cases "executemany records (txn conn)")
  note fr = executemany_frame [OF ex]
  from executemany_appends [OF ex] obtain added where
    ad: "opensky_data d = opensky_data (txn conn) @ added"
      "case x of Inl e \<Rightarrow> True | Inr n \<Rightarrow> n = length added"
    by blast
  have c: "conn' = (case x of Inl e \<Rightarrow> conn\<lparr>txn := d\<rparr> | Inr k \<Rightarrow> commit (conn\<lparr>txn := d\<rparr>))"
    "res = x"
    using assms ex by (auto simp: load_def split: sum.splits)
  show "etl_log (txn conn') = etl_log (txn conn)"
    using c fr by (cases x) (simp_all add: commit_def)
  show "etl_log_seq (txn conn') = etl_log_seq (txn conn)"
    using c fr by (cases x) (simp_all add: commit_def)
  show "res = Inr n \<Longrightarrow> durable conn' = txn conn'"
    using c by (simp add: commit_def)
  show "res = Inr n \<Longrightarrow> length (opensky_data (txn conn')) = length (opensky_data (txn conn)) + n"
    using c ad by (simp add: commit_def)
  show "res = Inr n \<Longrightarrow> commits conn' = commits conn @ [txn conn']"
    using c by (simp add: commit_def)
  show "res = Inl e \<Longrightarrow> durable conn' = durable conn"
    using c by simp
  show "res = Inl e \<Longrightarrow> commits conn' = commits conn"
    using c by simp
qed

section \<open>Facts about one cycle\<close>

lemma try_body_cases:
  assumes log: "etl_log (txn conn) = old @ [row]" "run_id row = rid"
    "\<forall>r\<in>set old. run_id r \<noteq> rid" "rid \<noteq> 0"
    and tb: "try_body w conn (Some rid) = (conn', msgs, exc)"
  shows "(exc = None \<and> durable conn' = txn conn' \<and>
          (\<exists>n pre. etl_log (txn conn') =
                 old @ [row\<lparr>end_time := Some (now_end w), records_processed := Some (int n),
                            status := Success, error_message := None\<rparr>]
             \<and> length (opensky_data (txn conn')) = length (opensky_data (txn conn)) + n
             \<and> commits conn' = commits conn @ pre @ [txn conn']
             \<and> length pre \<le> 1 \<and> list_all (\<lambda>d. etl_log d = old @ [row]) pre))
       \<or> ((\<exists>e. exc = Some e) \<and> etl_log (txn conn') = old @ [row]
            \<and> durable conn' = durable conn \<and> commits conn' = commits conn)"
proof -
  have zero: "conn' = fst (log_etl_run (now_end w) conn Success 0 None (Some rid)) \<Longrightarrow>
      exc = None \<Longrightarrow> ?thesis"
  proof -
    assume c: "conn' = fst (log_etl_run (now_end w) conn Success 0 None (Some rid))"
      and "exc = None"
    have "etl_log (txn conn') =
                 old @ [row\<lparr>end_time := Some (now_end w), records_processed := Some (int 0),
                            status := Success, error_message := None\<rparr>]
             \<and> length (opensky_data (txn conn')) = length (opensky_data (txn conn)) + 0
             \<and> commits conn' = commits conn @ [] @ [txn conn']
             \<and> length ([]::database list) \<le> 1
             \<and> list_all (\<lambda>d. etl_log d = old @ [row]) []"
      unfolding c end_run_last [OF log] by (simp add: commit_def)
    moreover have "durable conn' = txn conn'"
      unfolding c end_run_last [OF log] by (simp add: commit_def)
    ultimately show ?thesis using \<open>exc = None\<close> by blast
  qed
  show ?thesis
  proof (cases "response w")
    case (Inl e)
    with tb log show ?thesis by (auto simp: try_body_def)
  next
    case data: (Inr data)
    show ?thesis
    proof (cases "py_get data ''states'' (PList [])")
      case (Inl e)
      with tb log data show ?thesis by (auto simp: try_body_def)
    next
      case states: (Inr states)
      show ?thesis
      proof (cases "truthy states")
        case False
        with tb data states
        have "conn' = fst (log_etl_run (now_end w) conn Success 0 None (Some rid))" "exc = None"
          by (auto simp: try_body_def)
        then show ?thesis by (rule zero)
      next
        case True
        show ?thesis
        proof (cases "py_iter states")
          case (Inl e)
          with tb log data states True show ?thesis by (auto simp: try_body_def)
        next
          case ss: (Inr ss)
          show ?thesis
          proof (cases "records_to_insert (utcnow w) ss")
            case (Inl e)
            with tb log data states True ss show ?thesis by (auto simp: try_body_def)
          next
            case recs: (Inr recs)
            show ?thesis
            proof (cases "recs = []")
              case True
              with tb data states \<open>truthy states\<close> ss recs
              have "conn' = fst (log_etl_run (now_end w) conn Success 0 None (Some rid))"
                "exc = None"
                by (auto simp: try_body_def)
              then show ?thesis by (rule zero)
            next
              case False
              obtain c1 res where ld: "load conn recs = (c1, res)" by (cases "load conn recs")
              note lf = load_frame [OF ld]
              show ?thesis
              proof (cases res)
                case (Inl e)
                with tb data states \<open>truthy states\<close> ss recs False ld
                have "conn' = c1" "exc = Some e" by (auto simp: try_body_def)
                with lf(1) lf(6) [where e = e] lf(7) [where e = e] Inl log show ?thesis by simp
              next
                case (Inr n)
                with tb data states \<open>truthy states\<close> ss recs False ld
                have c': "conn' = fst (log_etl_run (now_end w) c1 Success (int n) None (Some rid))"
                  and exc: "exc = None"
                  by (auto simp: try_body_def)
                have l1: "etl_log (txn c1) = old @ [row]" using lf(1) log(1) by simp
                have "etl_log (txn conn') =
                    old @ [row\<lparr>end_time := Some (now_end w), records_processed := Some (int n),
                            status := Success, error_message := None\<rparr>]
                  \<and> length (opensky_data (txn conn')) = length (opensky_data (txn conn)) + n
                  \<and> commits conn' = commits conn @ [txn c1] @ [txn conn']
                  \<and> length [txn c1] \<le> 1
                  \<and> list_all (\<lambda>d. etl_log d = old @ [row]) [txn c1]"
                  unfolding c' end_run_last [OF l1 log(2,3,4)]
                  using lf(4) [where n = n] lf(5) [where n = n] Inr l1
                  by (simp add: commit_def)
                moreover have "durable conn' = txn conn'"
                  unfolding c' end_run_last [OF l1 log(2,3,4)] by (simp add: commit_def)
                ultimately show ?thesis using exc by blast
              qed
            qed
          qed
        qed
      qed
    qed
  qed
qed

lemma cycle_result_cases:
  "(\<exists>conn' msgs n pre.
       try_body w (begun w db) (Some (next_run_id db)) = (conn', msgs, None)
     \<and> etl_log (db_after (fetch_and_append_data w db)) = etl_log db @
          [\<lparr>run_id = next_run_id db, start_time = now_begin w, end_time = Some (now_end w),
            records_processed = Some (int n), status = Success, error_message = None\<rparr>]
     \<and> length (opensky_data (db_after (fetch_and_append_data w db)))
          = length (opensky_data db) + n
     \<and> commit_trace (fetch_and_append_data w db) = pre @ [db_after (fetch_and_append_data w db)]
     \<and> length pre \<le> 1
     \<and> list_all (\<lambda>d. etl_log d = etl_log db @
          [\<lparr>run_id = next_run_id db, start_time = now_begin w, end_time = None,
            records_processed = None, status = Running, error_message = None\<rparr>]) pre)
   \<or> (\<exists>conn' msgs e.
       try_body w (begun w db) (Some (next_run_id db)) = (conn', msgs, Some e)
     \<and> etl_log (db_after (fetch_and_append_data w db)) = etl_log db @
          [\<lparr>run_id = next_run_id db, start_time = now_begin w, end_time = Some (now_end w),
            records_processed = Some 0, status = Failure, error_message = Some (str_exn e)\<rparr>]
     \<and> commit_trace (fetch_and_append_data w db) = [db_after (fetch_and_append_data w db)])"
proof -
  let ?rid = "next_run_id db"
  let ?row = "\<lparr>run_id = ?rid, start_time = now_begin w, end_time = None,
        records_processed = None, status = Running, error_message = None\<rparr>"
  let ?res = "fetch_and_append_data w db"
  obtain conn' msgs exc where tb: "try_body w (begun w db) (Some ?rid) = (conn', msgs, exc)"
    by (cases "try_body w (begun w db) (Some ?rid)")
  have fresh: "\<forall>r\<in>set (etl_log db). run_id r \<noteq> ?rid"
    using next_run_id_fresh [of _ db] by fastforce
  have pos: "?rid \<noteq> 0" by (rule next_run_id_pos)
  have row: "run_id ?row = ?rid" by simp
  note cases = try_body_cases [OF begin_run(5) row fresh pos tb]
  show ?thesis
  proof (cases exc)
    case None
    with cases obtain n pre where
      n: "durable conn' = txn conn'"
         "etl_log (txn conn') = etl_log db @ [?row\<lparr>end_time := Some (now_end w),
             records_processed := Some (int n), status := Success, error_message := None\<rparr>]"
         "length (opensky_data (txn conn')) = length (opensky_data (txn (begun w db))) + n"
         "commits conn' = commits (begun w db) @ pre @ [txn conn']"
         "length pre \<le> 1" "list_all (\<lambda>d. etl_log d = etl_log db @ [?row]) pre"
      by auto
    have r: "?res = finish conn' msgs"
      using tb None by (simp add: fetch_and_append_data_def begin_run(1))
    have "db_after ?res = txn conn'" "commit_trace ?res = pre @ [txn conn']"
      using n(1,4) by (simp_all add: r finish_def close_def begin_run(3))
    with n(2,3,5,6) tb None show ?thesis by (simp add: begin_run(4))
  next
    case (Some e)
    with cases have l: "etl_log (txn conn') = etl_log db @ [?row]"
      and cm: "commits conn' = []"
      by (auto simp: begin_run(3))
    let ?c3 = "fst (log_etl_run (now_end w) conn' Failure 0 (Some (str_exn e)) (Some ?rid))"
    have r: "?res = finish ?c3 (msgs @ [Error (''ETL cycle failed: '' @ str_exn e)])"
      using tb Some pos by (simp add: fetch_and_append_data_def begin_run(1) Let_def)
    have c3: "?c3 = commit (conn'\<lparr>txn := (txn conn')\<lparr>etl_log := etl_log db @
        [?row\<lparr>end_time := Some (now_end w), records_processed := Some 0,
               status := Failure, error_message := Some (str_exn e)\<rparr>]\<rparr>\<rparr>)"
      by (rule end_run_last [OF l row fresh pos])
    have "etl_log (db_after ?res) = etl_log db @
          [\<lparr>run_id = next_run_id db, start_time = now_begin w, end_time = Some (now_end w),
            records_processed = Some 0, status = Failure, error_message = Some (str_exn e)\<rparr>]"
      "commit_trace ?res = [db_after ?res]"
      unfolding r c3 using cm by (simp_all add: finish_def close_def commit_def)
    with tb Some show ?thesis by simp
  qed
qed

lemma cycle_log_row:
  "\<exists>row. etl_log (db_after (fetch_and_append_data w db)) = etl_log db @ [row]
      \<and> run_id row = next_run_id db \<and> start_time row = now_begin w
      \<and> end_time row = Some (now_end w)
      \<and> (status row = Success \<or> status row = Failure)"
  using cycle_result_cases [of w db] by auto


lemma txn_begun:
  "txn (begun w db) = db\<lparr>etl_log := etl_log db @
      [\<lparr>run_id = next_run_id db, start_time = now_begin w, end_time = None,
        records_processed = None, status = Running, error_message = None\<rparr>],
      etl_log_seq := next_run_id db\<rparr>"
  by (simp add: begun_def log_etl_run_def connect_def insert_run_def)

lemma end_run_begun:
  "fst (log_etl_run t (begun w db) st k em (Some (next_run_id db))) =
     \<lparr>durable = db\<lparr>etl_log := etl_log db @
          [\<lparr>run_id = next_run_id db, start_time = now_begin w, end_time = Some t,
            records_processed = Some k, status = st, error_message = em\<rparr>],
        etl_log_seq := next_run_id db\<rparr>,
      txn = db\<lparr>etl_log := etl_log db @
          [\<lparr>run_id = next_run_id db, start_time = now_begin w, end_time = Some t,
            records_processed = Some k, status = st, error_message = em\<rparr>],
        etl_log_seq := next_run_id db\<rparr>,
      commits = [db\<lparr>etl_log := etl_log db @
          [\<lparr>run_id = next_run_id db, start_time = now_begin w, end_time = Some t,
            records_processed = Some k, status = st, error_message = em\<rparr>],
        etl_log_seq := next_run_id db\<rparr>]\<rparr>"
proof -
  have fresh: "\<forall>r\<in>set (etl_log db). run_id r \<noteq> next_run_id db"
    using next_run_id_fresh [of _ db] by fastforce
  have "fst (log_etl_run t (begun w db) st k em (Some (next_run_id db))) =
      commit ((begun w db)\<lparr>txn := (txn (begun w db))\<lparr>etl_log := etl_log db @
        [\<lparr>run_id = next_run_id db, start_time = now_begin w, end_time = Some t,
          records_processed = Some k, status = st, error_message = em\<rparr>]\<rparr>\<rparr>)"
    using end_run_last [OF begin_run(5) _ fresh next_run_id_pos, of w t st k em]
    by simp
  then show ?thesis
    by (simp add: commit_def txn_begun begin_run(3))
qed

lemma try_body_fetch_error:
  "response w = Inl e \<Longrightarrow>
     try_body w conn (Some rid) =
       (conn, [Info (''Starting ETL Cycle (Run ID: '' @ string_of_nat rid @ '')...'')], Some e)"
  by (simp add: try_body_def)

lemma records_to_insert_short:
  "length fs < 17 \<Longrightarrow>
     records_to_insert ft (before @ PList fs # after) = records_to_insert ft (before @ after)"
  by (induction before) (simp_all split: sum.splits)

section \<open>Facts about the driver\<close>




lemma example_facts:
  "next_run_id empty_db = 1" "etl_log empty_db = []" "opensky_data empty_db = []"
  "now_begin failing_world = ''t0''" "now_end failing_world = ''t1''"
  "now_begin quiet_world = ''t0''" "now_end quiet_world = ''t1''"
  by (simp_all add: next_run_id_def empty_db_def failing_world_def quiet_world_def)

section \<open>The claims\<close>

subsection \<open>C1\<close>



subsection \<open>C2\<close>



subsection \<open>C3\<close>

text \<open>
  C3, as the code has it.  Every cycle leaves the run-log entries it found unchanged and
  adds its own entry, closed with status Success or Failure and an end time.  Called with
  an identifier other than 0 that no entry has, \<open>log_etl_run\<close> changes no row: it only
  commits and returns \<^verbatim>\<open>None\<close>.  Called with the identifier of an entry, it sets that entry's
  end time, count, status and message to the values given whatever the entry's status was,
  so a second terminal write replaces the outcome recorded by the first.
\<close>

theorem end_run_transitions:
  assumes "rid \<noteq> 0"
  shows "(\<exists>row. etl_log (db_after (fetch_and_append_data w db)) = etl_log db @ [row]
            \<and> run_id row = next_run_id db
            \<and> end_time row = Some (now_end w)
            \<and> (status row = Success \<or> status row = Failure))
       \<and> (list_all (\<lambda>r. run_id r \<noteq> rid) (etl_log (txn conn)) \<longrightarrow>
            log_etl_run t conn st k em (Some rid) = (commit conn, None))
       \<and> (r \<in> set (etl_log (txn conn)) \<and> run_id r = rid \<longrightarrow>
            r\<lparr>end_time := Some t, records_processed := Some k, status := st,
              error_message := em\<rparr>
              \<in> set (etl_log (txn (fst (log_etl_run t conn st k em (Some rid))))))"
proof (intro conjI impI)
  show "\<exists>row. etl_log (db_after (fetch_and_append_data w db)) = etl_log db @ [row]
            \<and> run_id row = next_run_id db
            \<and> end_time row = Some (now_end w)
            \<and> (status row = Success \<or> status row = Failure)"
    using cycle_log_row [of w db] by blast
next
  assume "list_all (\<lambda>r. run_id r \<noteq> rid) (etl_log (txn conn))"
  then have "\<forall>r\<in>set (etl_log (txn conn)). run_id r \<noteq> rid"
    by (simp add: list_all_iff)
  then have "update_run t k st em rid (txn conn) = txn conn"
    by (rule update_run_absent)
  then show "log_etl_run t conn st k em (Some rid) = (commit conn, None)"
    using assms by (simp add: log_etl_run_update)
next
  assume "r \<in> set (etl_log (txn conn)) \<and> run_id r = rid"
  then show "r\<lparr>end_time := Some t, records_processed := Some k, status := st,
              error_message := em\<rparr>
              \<in> set (etl_log (txn (fst (log_etl_run t conn st k em (Some rid)))))"
    using assms by (force simp: log_etl_run_update commit_def update_run_def)
qed

text \<open>Run 1 is open on the empty database.  Closing a run 7 that does not exist only
  commits; closing run 1 as Success and then as Failure leaves it a Failure.\<close>

theorem end_run_transitions_witness:
  "(7::nat) \<noteq> 0
   \<and> list_all (\<lambda>r. run_id r \<noteq> 7) (etl_log (txn (begun example_world empty_db)))
   \<and> log_etl_run ''t1'' (begun example_world empty_db) Failure 0 None (Some 7)
        = (commit (begun example_world empty_db), None)
   \<and> (1::nat) \<noteq> 0
   \<and> \<lparr>run_id = 1, start_time = ''t0'', end_time = Some ''t1'',
          records_processed = Some 5, status = Success, error_message = None\<rparr>
        \<in> set (etl_log (txn (fst (log_etl_run ''t1'' (begun example_world empty_db)
                                   Success 5 None (Some 1)))))
   \<and> \<lparr>run_id = 1, start_time = ''t0'', end_time = Some ''t2'',
          records_processed = Some 0, status = Failure, error_message = Some ''late''\<rparr>
        \<in> set (etl_log (txn (fst (log_etl_run ''t2''
             (fst (log_etl_run ''t1'' (begun example_world empty_db) Success 5 None (Some 1)))
             Failure 0 (Some ''late'') (Some 1)))))"
proof -
  have h1: "(7::nat) \<noteq> 0" and h2: "(1::nat) \<noteq> 0" by simp_all
  have a: "list_all (\<lambda>r. run_id r \<noteq> 7) (etl_log (txn (begun example_world empty_db)))"
    by code_simp
  have b: "\<lparr>run_id = 1, start_time = ''t0'', end_time = Some ''t1'',
          records_processed = Some 5, status = Success, error_message = None\<rparr>
        \<in> set (etl_log (txn (fst (log_etl_run ''t1'' (begun example_world empty_db)
                                   Success 5 None (Some 1)))))"
    by code_simp
  from end_run_transitions [OF h1, where w = example_world and db = empty_db
      and conn = "begun example_world empty_db" and t = "''t1''" and st = Failure and k = 0
      and em = None] a
  have c: "log_etl_run ''t1'' (begun example_world empty_db) Failure 0 None (Some 7)
        = (commit (begun example_world empty_db), None)"
    by blast
  from end_run_transitions [OF h2, where w = example_world and db = empty_db
       and conn = "fst (log_etl_run ''t1'' (begun example_world empty_db) Success 5 None (Some 1))"
       and t = "''t2''" and k = 0 and st = Failure and em = "Some ''late''"] b
  have d: "\<lparr>run_id = 1, start_time = ''t0'', end_time = Some ''t2'',
          records_processed = Some 0, status = Failure, error_message = Some ''late''\<rparr>
        \<in> set (etl_log (txn (fst (log_etl_run ''t2''
             (fst (log_etl_run ''t1'' (begun example_world empty_db) Success 5 None (Some 1)))
             Failure 0 (Some ''late'') (Some 1)))))"
    by force
  from h1 h2 a b c d show ?thesis by blast
qed

text \<open>The claim as written fails: run 1, closed as Success with 5 records, is closed
  again as Failure; the committed entry then says Failure with 0 records.\<close>

theorem second_end_run_overwrites_outcome:
  "etl_log (durable (fst (log_etl_run ''t1'' (begun example_world empty_db)
                            Success 5 None (Some 1))))
     = [\<lparr>run_id = 1, start_time = ''t0'', end_time = Some ''t1'',
          records_processed = Some 5, status = Success, error_message = None\<rparr>]
   \<and> etl_log (durable (fst (log_etl_run ''t2''
          (fst (log_etl_run ''t1'' (begun example_world empty_db) Success 5 None (Some 1)))
          Failure 0 (Some ''late'') (Some 1))))
     = [\<lparr>run_id = 1, start_time = ''t0'', end_time = Some ''t2'',
          records_processed = Some 0, status = Failure, error_message = Some ''late''\<rparr>]"
  by code_simp

subsection \<open>C4\<close>

text \<open>
  C4.  When lines 47 to 50 raise (the request fails or times out, or \<^verbatim>\<open>raise_for_status\<close>
  raises for the status), the cycle leaves the database as it was but for one new run-log
  row, which has status Failure and the exception's text as error message; the observation
  table is unchanged, and the cycle commits once.
\<close>

theorem fetch_error_is_one_failure_row:
  assumes "response w = Inl e"
  shows "db_after (fetch_and_append_data w db) =
           db\<lparr>etl_log := etl_log db @
                [\<lparr>run_id = next_run_id db, start_time = now_begin w, end_time = Some (now_end w),
                  records_processed = Some 0, status = Failure,
                  error_message = Some (str_exn e)\<rparr>],
              etl_log_seq := next_run_id db\<rparr>
         \<and> opensky_data (db_after (fetch_and_append_data w db)) = opensky_data db
         \<and> commit_trace (fetch_and_append_data w db) = [db_after (fetch_and_append_data w db)]"
proof -
  have r: "fetch_and_append_data w db =
    finish (fst (log_etl_run (now_end w) (begun w db) Failure 0 (Some (str_exn e))
                   (Some (next_run_id db))))
      ([Info (''Starting ETL Cycle (Run ID: '' @ string_of_nat (next_run_id db) @ '')...'')]
        @ [Error (''ETL cycle failed: '' @ str_exn e)])"
    using next_run_id_pos [of db]
    by (simp add: fetch_and_append_data_def begin_run(1) try_body_fetch_error [OF assms] Let_def)
  show ?thesis
    unfolding r by (simp add: finish_def close_def end_run_begun)
qed

theorem fetch_error_is_one_failure_row_witness:
  "response failing_world = Inl (HTTPError ''503 Server Error'')
   \<and> db_after (fetch_and_append_data failing_world empty_db) =
       \<lparr>opensky_data = [],
         etl_log = [\<lparr>run_id = 1, start_time = ''t0'', end_time = Some ''t1'',
                     records_processed = Some 0, status = Failure,
                     error_message = Some ''503 Server Error''\<rparr>],
         etl_log_seq = 1\<rparr>"
proof -
  have h: "response failing_world = Inl (HTTPError ''503 Server Error'')"
    by (simp add: failing_world_def)
  from fetch_error_is_one_failure_row [OF h, of empty_db]
  have "db_after (fetch_and_append_data failing_world empty_db) =
           empty_db\<lparr>etl_log := etl_log empty_db @
                [\<lparr>run_id = next_run_id empty_db, start_time = now_begin failing_world,
                  end_time = Some (now_end failing_world),
                  records_processed = Some 0, status = Failure,
                  error_message = Some (str_exn (HTTPError ''503 Server Error''))\<rparr>],
              etl_log_seq := next_run_id empty_db\<rparr>"
    by blast
  also have "\<dots> = \<lparr>opensky_data = [],
         etl_log = [\<lparr>run_id = 1, start_time = ''t0'', end_time = Some ''t1'',
                     records_processed = Some 0, status = Failure,
                     error_message = Some ''503 Server Error''\<rparr>],
         etl_log_seq = 1\<rparr>"
    by (simp add: example_facts)
  finally show ?thesis using h by blast
qed

subsection \<open>C5\<close>

text \<open>
  C5.  When the response is a JSON object with no \<^verbatim>\<open>states\<close> member, or one whose value is
  empty or null (any value Python takes for false), the cycle skips the load: the
  observation table is unchanged, the only commit is the one that closes the run, and the
  run's row ends with status Success and \<open>records_processed = 0\<close>.
\<close>

theorem empty_states_is_zero_record_success:
  assumes "response w = Inr (PDict kvs)"
    and "case map_of kvs ''states'' of None \<Rightarrow> True | Some v \<Rightarrow> \<not> truthy v"
  shows "db_after (fetch_and_append_data w db) =
           db\<lparr>etl_log := etl_log db @
                [\<lparr>run_id = next_run_id db, start_time = now_begin w, end_time = Some (now_end w),
                  records_processed = Some 0, status = Success, error_message = None\<rparr>],
              etl_log_seq := next_run_id db\<rparr>
         \<and> opensky_data (db_after (fetch_and_append_data w db)) = opensky_data db
         \<and> commit_trace (fetch_and_append_data w db) = [db_after (fetch_and_append_data w db)]
         \<and> messages (fetch_and_append_data w db) =
             [Info (''Starting ETL Cycle (Run ID: '' @ string_of_nat (next_run_id db) @ '')...''),
              Warning ''No flight data received in this cycle.'']"
proof -
  have "\<exists>states. py_get (PDict kvs) ''states'' (PList []) = Inr states \<and> \<not> truthy states"
    using assms(2) by (cases "map_of kvs ''states''") simp_all
  then obtain states where st: "py_get (PDict kvs) ''states'' (PList []) = Inr states"
    "\<not> truthy states" by blast
  have tb: "try_body w (begun w db) (Some (next_run_id db)) =
      (fst (log_etl_run (now_end w) (begun w db) Success 0 None (Some (next_run_id db))),
       [Info (''Starting ETL Cycle (Run ID: '' @ string_of_nat (next_run_id db) @ '')...''),
        Warning ''No flight data received in this cycle.''], None)"
    using assms(1) st by (simp add: try_body_def)
  show ?thesis
    by (simp add: fetch_and_append_data_def begin_run(1) tb finish_def close_def end_run_begun)
qed

text \<open>The reply the API gives when no aircraft is in the box: \<^verbatim>\<open>"states": null\<close>.\<close>

theorem empty_states_is_zero_record_success_witness:
  "response quiet_world = Inr (PDict [(''time'', PInt 1690000000), (''states'', PNone)])
   \<and> (case map_of [(''time'', PInt 1690000000), (''states'', PNone)] ''states'' of
         None \<Rightarrow> True | Some v \<Rightarrow> \<not> truthy v)
   \<and> db_after (fetch_and_append_data quiet_world empty_db) =
       \<lparr>opensky_data = [],
         etl_log = [\<lparr>run_id = 1, start_time = ''t0'', end_time = Some ''t1'',
                     records_processed = Some 0, status = Success, error_message = None\<rparr>],
         etl_log_seq = 1\<rparr>"
proof -
  have h: "response quiet_world = Inr (PDict [(''time'', PInt 1690000000), (''states'', PNone)])"
    by (simp add: quiet_world_def)
  have g: "case map_of [(''time'', PInt 1690000000), (''states'', PNone)] ''states'' of
         None \<Rightarrow> True | Some v \<Rightarrow> \<not> truthy v"
    by simp
  from empty_states_is_zero_record_success [OF h g, of empty_db]
  have "db_after (fetch_and_append_data quiet_world empty_db) =
           empty_db\<lparr>etl_log := etl_log empty_db @
                [\<lparr>run_id = next_run_id empty_db, start_time = now_begin quiet_world,
                  end_time = Some (now_end quiet_world),
                  records_processed = Some 0, status = Success, error_message = None\<rparr>],
              etl_log_seq := next_run_id empty_db\<rparr>"
    by blast
  also have "\<dots> = \<lparr>opensky_data = [],
         etl_log = [\<lparr>run_id = 1, start_time = ''t0'', end_time = Some ''t1'',
                     records_processed = Some 0, status = Success, error_message = None\<rparr>],
         etl_log_seq = 1\<rparr>"
    by (simp add: example_facts)
  finally show ?thesis using h g by blast
qed

subsection \<open>C6\<close>

text \<open>
  C6.  Running the load a second time with the same batch changes nothing: the connection's
  view and the committed database are the ones the first run left, so the observation
  table has the same number of rows; where the first run returned a count, the second
  returns 0, and where it raised, the second raises the same exception.
\<close>

theorem load_twice_same_rows:
  "txn (fst (load (fst (load conn records)) records)) = txn (fst (load conn records))
   \<and> durable (fst (load (fst (load conn records)) records)) = durable (fst (load conn records))
   \<and> length (opensky_data (durable (fst (load (fst (load conn records)) records))))
        = length (opensky_data (durable (fst (load conn records))))
   \<and> (case snd (load conn records) of
         Inl e \<Rightarrow> snd (load (fst (load conn records)) records) = Inl e
       | Inr n \<Rightarrow> snd (load (fst (load conn records)) records) = Inr 0)"
proof -
  obtain d x where ex: "executemany records (txn conn) = (d, x)"
    by (cases "executemany records (txn conn)")
  note again = executemany_twice [OF ex]
  show ?thesis
  proof (cases x)
    case (Inl e)
    have 1: "load conn records = (conn\<lparr>txn := d\<rparr>, Inl e)"
      using ex Inl by (simp add: load_def)
    have 2: "load (conn\<lparr>txn := d\<rparr>) records = (conn\<lparr>txn := d\<rparr>, Inl e)"
      using again Inl by (simp add: load_def)
    show ?thesis by (simp add: 1 2)
  next
    case (Inr n)
    have 1: "load conn records = (commit (conn\<lparr>txn := d\<rparr>), Inr n)"
      using ex Inr by (simp add: load_def)
    have 2: "load (commit (conn\<lparr>txn := d\<rparr>)) records
               = (commit (commit (conn\<lparr>txn := d\<rparr>)), Inr 0)"
      using again Inr by (simp add: load_def commit_def)
    show ?thesis by (simp add: 1 2) (simp add: commit_def)
  qed
qed

subsection \<open>C7\<close>

text \<open>
  C7.  A state vector that is a list of fewer than 17 fields contributes nothing to the
  batch and raises nothing: the records prepared from a sequence of states are those
  prepared from the sequence without it, and on its own it gives the empty batch.  It
  leaves no trace of its own either: when other states remain, the cycle on the response
  with the short tuple and the cycle on the response without it give the same database,
  the same commits and the same log messages.
\<close>

theorem short_tuple_is_dropped_silently:
  assumes "length fs < 17"
  shows "records_to_insert ft (before @ PList fs # after)
           = records_to_insert ft (before @ after)
       \<and> records_to_insert ft [PList fs] = Inr []
       \<and> (before @ after = [] \<or>
            fetch_and_append_data
                (w\<lparr>response :=
                     Inr (PDict ((''states'', PList (before @ PList fs # after)) # kvs))\<rparr>) db
              = fetch_and_append_data
                (w\<lparr>response := Inr (PDict ((''states'', PList (before @ after)) # kvs))\<rparr>) db)"
proof -
  have a: "records_to_insert ft (before @ PList fs # after)
           = records_to_insert ft (before @ after)" for ft
    using assms by (rule records_to_insert_short)
  have b: "records_to_insert ft [PList fs] = Inr []"
    using assms by simp
  have c: "fetch_and_append_data
                (w\<lparr>response :=
                     Inr (PDict ((''states'', PList (before @ PList fs # after)) # kvs))\<rparr>) db
              = fetch_and_append_data
                (w\<lparr>response := Inr (PDict ((''states'', PList (before @ after)) # kvs))\<rparr>) db"
    if "before @ after \<noteq> []"
    using that
    by (simp add: fetch_and_append_data_def try_body_def a
          cong: sum.case_cong prod.case_cong option.case_cong if_cong)
  from a b c show ?thesis by blast
qed

text \<open>A tuple of two fields after the example state.\<close>

theorem short_tuple_is_dropped_silently_witness:
  "length [PStr ''abc123'', PStr ''UAL123 ''] < 17
   \<and> records_to_insert ''tf'' ([example_state] @ PList [PStr ''abc123'', PStr ''UAL123 ''] # [])
       = Inr [example_record ''abc123'' ''tf'']
   \<and> records_to_insert ''tf'' [PList [PStr ''abc123'', PStr ''UAL123 '']] = Inr []"
proof -
  have h: "length [PStr ''abc123'', PStr ''UAL123 ''] < 17" by simp
  have v: "records_to_insert ''tf'' ([example_state] @ []) = Inr [example_record ''abc123'' ''tf'']"
    by code_simp
  from short_tuple_is_dropped_silently [OF h, where ft = "''tf''" and before = "[example_state]"
      and after = "[]" and w = example_world and kvs = "[]" and db = empty_db] v h
  show ?thesis by simp
qed

subsection \<open>C8\<close>

text \<open>
  C8 does not hold of the code.  The test \<^verbatim>\<open>if state[1]\<close> is made on the raw callsign,
  before it is stripped, so a callsign of eight blanks passes it and is stored as the empty
  string, where an empty or absent one is stored as \<^verbatim>\<open>NULL\<close>.
\<close>

theorem blank_callsign_is_stored_as_empty_string:
  "record_of ''tf'' blank_callsign_state = Inr ((example_record ''abc123'' ''tf'')[1 := PStr ''''])
   \<and> opensky_data (db_after (fetch_and_append_data
        (example_world\<lparr>response := Inr (PDict [(''states'', PList [blank_callsign_state])])\<rparr>)
        empty_db))
     = [(example_row ''abc123'' ''tf'')[1 := Text '''']]"
  by code_simp

subsection \<open>C9\<close>

text \<open>
  C9.  On the empty store, the cycle that receives the response of the specification's
  scenario stores one observation row, with aircraft identifier \<^verbatim>\<open>abc123\<close>, callsign
  \<^verbatim>\<open>UAL123\<close>, sensors \<^verbatim>\<open>1,2\<close> and the cycle's fetch time, which is a text and not \<^verbatim>\<open>NULL\<close>;
  the run log holds one row, with status Success and \<open>records_processed = 1\<close>.
\<close>

theorem end_to_end_scenario:
  "db_after (fetch_and_append_data
       \<lparr>now_begin = t0, utcnow = tf, now_end = t1,
         response = Inr (PDict [(''states'', PList [example_state])])\<rparr> empty_db)
     = \<lparr>opensky_data = [example_row ''abc123'' tf],
        etl_log = [\<lparr>run_id = 1, start_time = t0, end_time = Some t1,
                    records_processed = Some 1, status = Success, error_message = None\<rparr>],
        etl_log_seq = 1\<rparr>
   \<and> example_row ''abc123'' tf ! 0 = Text ''abc123''
   \<and> example_row ''abc123'' tf ! 1 = Text ''UAL123''
   \<and> example_row ''abc123'' tf ! 12 = Text ''1,2''
   \<and> example_row ''abc123'' tf ! 17 = Text tf \<and> Text tf \<noteq> Null"
  by code_simp

subsection \<open>C10\<close>



end
